theory Spec2Isabelle
  imports Complex_Main "HOL-Library.Char_ord" "HOL-Library.List_Lexorder"
begin

section \<open>Data model\<close>

text \<open>
  Shape records as \<open>Editor.ts\<close> reads them. A parent reference (\<open>TLParentId\<close>) is either a
  page id or a shape id; \<open>isPageId\<close> and \<open>isShapeId\<close> tell the two apart, so the reference is
  a tagged union here. JavaScript numbers are modelled as reals. The \<open>type\<close> tag of a shape
  selects the layout of its \<open>props\<close>; the tag and the props are one datatype, so that
  \<open>isShapeOfType\<close> is a test of the constructor.
\<close>

type_synonym shape_id = string
type_synonym page_id = string
type_synonym index_key = string
type_synonym vec = "real \<times> real"

text \<open>The text of a label is a JavaScript string: a list of UTF-16 code units.\<close>

type_synonym js_text = "nat list"

datatype parent_id = PageId page_id | ShapeId shape_id

datatype terminal =
    BindingTerminal shape_id vec bool bool
  | PointTerminal real real

datatype shape_props =
    ArrowProps terminal terminal js_text
  | GeoProps string js_text
  | FrameProps
  | GroupProps
  | OtherProps

record shape =
  shapeId :: shape_id
  parentId :: parent_id
  shapeX :: real
  shapeY :: real
  rotation :: real
  shapeIndex :: index_key
  isLocked :: bool
  props :: shape_props

text \<open>
  The collaborators of the editor whose code is outside this development: the matrix
  primitives (\<open>Mat\<close>), the generators of fractional order keys, the \<open>onBeforeUpdate\<close> hook
  of the shape utilities, the page-space position of a bound arrow endpoint (which comes
  from the geometry of its target), and the read-only flag of the instance state. They
  are parameters of every operation that uses them.
\<close>

record 'm collab =
  Mat_Identity :: 'm
  Mat_translate :: "'m \<Rightarrow> real \<Rightarrow> real \<Rightarrow> 'm"
  Mat_rotate :: "'m \<Rightarrow> real \<Rightarrow> 'm"
  Mat_Compose :: "'m \<Rightarrow> 'm \<Rightarrow> 'm"
  Mat_invert :: "'m \<Rightarrow> 'm"
  Mat_applyToPoint :: "'m \<Rightarrow> vec \<Rightarrow> vec"
  Mat_point :: "'m \<Rightarrow> vec"
  Mat_rotation :: "'m \<Rightarrow> real"
  getIndices :: "nat \<Rightarrow> index_key list"
  getIndicesAbove :: "index_key \<Rightarrow> nat \<Rightarrow> index_key list"
  getIndicesBetween :: "index_key \<Rightarrow> index_key \<Rightarrow> nat \<Rightarrow> index_key list"
  getIndexAbove :: "index_key \<Rightarrow> index_key"
  getIndexBetween :: "index_key \<Rightarrow> index_key \<Rightarrow> index_key"
  onBeforeUpdate :: "shape \<Rightarrow> shape \<Rightarrow> shape option"
  endpointPagePoint :: "shape list \<Rightarrow> shape \<Rightarrow> terminal \<Rightarrow> vec"
  isReadonly :: bool

section \<open>The record store\<close>

text \<open>
  The store holds the shape records, each under its own id: a lookup returns the record
  whose \<open>id\<close> field is the key. \<open>getShape\<close> is \<open>Editor.getShape\<close>; the result \<open>None\<close> is
  JavaScript's \<open>undefined\<close>.
\<close>

type_synonym store = "shape list"

definition getShape :: "store \<Rightarrow> shape_id \<Rightarrow> shape option" where
  "getShape st i = find (\<lambda>s. shapeId s = i) st"

definition getShapeByParentId :: "store \<Rightarrow> parent_id \<Rightarrow> shape option" where
  "getShapeByParentId st p = (case p of PageId _ \<Rightarrow> None | ShapeId i \<Rightarrow> getShape st i)"

section \<open>Transforms\<close>

text \<open>
  A result \<open>None\<close> of the operations below means that the call does not return a value:
  it throws, or it walks a parent chain that never ends. \<open>getShapeLocalTransform\<close> throws
  when the shape is not in the store.
\<close>

definition getShapeLocalTransform :: "'m collab \<Rightarrow> store \<Rightarrow> shape_id \<Rightarrow> 'm option" where
  "getShapeLocalTransform E st i =
     (case getShape st i of
        None \<Rightarrow> None
      | Some freshShape \<Rightarrow>
          Some (Mat_rotate E
                 (Mat_translate E (Mat_Identity E) (shapeX freshShape) (shapeY freshShape))
                 (rotation freshShape)))"

text \<open>
  The computed cache of page transforms. \<open>get\<close> of a computed cache is \<open>undefined\<close>
  (\<open>Some None\<close>) for an id with no record, and the derivation applied to the record
  otherwise; memoisation does not change the value read.
\<close>

partial_function (option) pageTransformCache ::
  "'m collab \<Rightarrow> store \<Rightarrow> shape_id \<Rightarrow> 'm option option" where
  "pageTransformCache E st i =
     (case getShape st i of
        None \<Rightarrow> Some None
      | Some shape \<Rightarrow>
          (case parentId shape of
             PageId _ \<Rightarrow> map_option Some (getShapeLocalTransform E st (shapeId shape))
           | ShapeId pid \<Rightarrow>
               Option.bind (pageTransformCache E st pid) (\<lambda>cached.
                 let parentTransform = (case cached of None \<Rightarrow> Mat_Identity E | Some m \<Rightarrow> m)
                 in map_option (\<lambda>l. Some (Mat_Compose E parentTransform l))
                      (getShapeLocalTransform E st (shapeId shape)))))"

definition getShapePageTransform :: "'m collab \<Rightarrow> store \<Rightarrow> shape_id \<Rightarrow> 'm option" where
  "getShapePageTransform E st i =
     map_option (\<lambda>cached. case cached of None \<Rightarrow> Mat_Identity E | Some m \<Rightarrow> m)
       (pageTransformCache E st i)"

text \<open>
  \<open>grounded st i\<close>: the walk from \<open>i\<close> along the parent references ends, at a page or at a
  record that is missing.
\<close>

inductive grounded :: "store \<Rightarrow> shape_id \<Rightarrow> bool" for st :: store where
  missing: "getShape st i = None \<Longrightarrow> grounded st i"
| on_page: "getShape st i = Some s \<Longrightarrow> parentId s = PageId p \<Longrightarrow> grounded st i"
| in_shape: "getShape st i = Some s \<Longrightarrow> parentId s = ShapeId q \<Longrightarrow> grounded st q
             \<Longrightarrow> grounded st i"

section \<open>Geometry and the hit-test environment\<close>

text \<open>
  A \<open>Box\<close> has a corner and a size. A geometry (\<open>Geometry2d\<close>) is supplied by the shape
  utilities: its flags, its area and bounds, and its point queries are fields; \<open>children\<close>
  is defined exactly for a \<open>Group2d\<close>, so \<open>geometry instanceof Group2d\<close> is the test that
  \<open>children\<close> is not \<open>None\<close>.
\<close>

record box =
  boxX :: real
  boxY :: real
  boxW :: real
  boxH :: real

datatype geometry = Geometry2d
  (isClosed: bool)
  (isFilled: bool)
  (isLabel: bool)
  (area: real)
  (bounds: box)
  (distanceToPoint: "vec \<Rightarrow> bool \<Rightarrow> real")
  (hitTestPoint: "vec \<Rightarrow> real \<Rightarrow> bool \<Rightarrow> bool")
  (isPointInBounds: "vec \<Rightarrow> bool")
  (children: "geometry list option")

text \<open>
  What \<open>getShapeAtPoint\<close>, \<open>isPointInShape\<close> and \<open>getShapeMaskedPageBounds\<close> read from
  the editor: the camera, the sorted shapes of the current page, the caches of masks,
  geometries, page bounds and page transforms (keyed by shape id), and the geometric
  primitives \<open>pointInPolygon\<close>, \<open>intersectPolygonPolygon\<close>, \<open>Vec.Equals\<close> and those of
  \<open>Box\<close>.
\<close>

record hit_env =
  getZoomLevel :: real
  getViewportPageBounds :: box
  HIT_TEST_MARGIN :: real
  getCurrentPageShapesSorted :: "shape list"
  getCurrentPageRenderingShapesSorted :: "shape list"
  getShapeMask :: "shape_id \<Rightarrow> vec list option"
  getShapeGeometry :: "shape_id \<Rightarrow> geometry"
  getPointInShapeSpace :: "shape_id \<Rightarrow> vec \<Rightarrow> vec"
  getShapePageBounds :: "shape_id \<Rightarrow> box option"
  pointInPolygon :: "vec \<Rightarrow> vec list \<Rightarrow> bool"
  intersectPolygonPolygon :: "vec list \<Rightarrow> vec list \<Rightarrow> vec list option"
  Vec_Equals :: "vec \<Rightarrow> vec \<Rightarrow> bool"
  Box_corners :: "box \<Rightarrow> vec list"
  Box_FromPoints :: "vec list \<Rightarrow> box"
  Box_containsPoint :: "box \<Rightarrow> vec \<Rightarrow> real \<Rightarrow> bool"
  Box_contains :: "box \<Rightarrow> box \<Rightarrow> bool"

text \<open>The options of \<open>getShapeAtPoint\<close>, with the defaults already filled in.\<close>

record hit_opts =
  renderingOnly :: bool
  margin :: real
  hitInside :: bool
  hitLabels :: bool
  hitFrameInside :: bool
  shapeFilter :: "(shape \<Rightarrow> bool) option"

definition isShapeOfType :: "shape \<Rightarrow> string \<Rightarrow> bool" where
  "isShapeOfType shape t =
     (case props shape of
        ArrowProps _ _ _ \<Rightarrow> t = ''arrow''
      | GeoProps _ _ \<Rightarrow> t = ''geo''
      | FrameProps \<Rightarrow> t = ''frame''
      | GroupProps \<Rightarrow> t = ''group''
      | OtherProps \<Rightarrow> False)"

section \<open>Masked page bounds\<close>

text \<open>
  \<open>every_corner\<close> is \<open>corners.every((p, i) => p && Vec.Equals(p, pageMask[i]))\<close>: an index
  past the end of the mask makes \<open>Vec.Equals\<close> read a field of \<open>undefined\<close>, which throws
  (\<open>None\<close>). The result of \<open>getShapeMaskedPageBounds\<close> is \<open>Some None\<close> for \<open>undefined\<close>.
\<close>

fun every_corner :: "hit_env \<Rightarrow> vec list \<Rightarrow> vec list \<Rightarrow> bool option" where
  "every_corner H [] pageMask = Some True"
| "every_corner H (p # ps) [] = None"
| "every_corner H (p # ps) (m # ms) =
     (if Vec_Equals H p m then every_corner H ps ms else Some False)"

definition getShapeMaskedPageBounds :: "hit_env \<Rightarrow> shape_id \<Rightarrow> box option option" where
  "getShapeMaskedPageBounds H i =
     (case getShapePageBounds H i of
        None \<Rightarrow> Some None
      | Some pageBounds \<Rightarrow>
          (case getShapeMask H i of
             Some pageMask \<Rightarrow>
               if length pageMask = 0 then Some None
               else
                 (case every_corner H (Box_corners H pageBounds) pageMask of
                    None \<Rightarrow> None
                  | Some True \<Rightarrow> Some (Some pageBounds)
                  | Some False \<Rightarrow>
                      (case intersectPolygonPolygon H pageMask (Box_corners H pageBounds) of
                         None \<Rightarrow> Some None
                       | Some intersection \<Rightarrow> Some (Some (Box_FromPoints H intersection))))
           | None \<Rightarrow> Some (Some pageBounds)))"

section \<open>Hit testing\<close>

definition isPointInShape :: "hit_env \<Rightarrow> shape_id \<Rightarrow> vec \<Rightarrow> real \<Rightarrow> bool \<Rightarrow> bool" where
  "isPointInShape H i point mrg hitIn =
     (case getShapeMask H i of
        Some pageMask \<Rightarrow>
          if \<not> pointInPolygon H point pageMask then False
          else hitTestPoint (getShapeGeometry H i) (getPointInShapeSpace H i point) mrg hitIn
      | None \<Rightarrow>
          hitTestPoint (getShapeGeometry H i) (getPointInShapeSpace H i point) mrg hitIn)"

definition shapesToCheck :: "hit_env \<Rightarrow> vec \<Rightarrow> hit_opts \<Rightarrow> shape list" where
  "shapesToCheck H point opts =
     filter
       (\<lambda>shape.
          if isShapeOfType shape ''group'' then False
          else if (case getShapeMask H (shapeId shape) of
                     Some pageMask \<Rightarrow> \<not> pointInPolygon H point pageMask
                   | None \<Rightarrow> False) then False
          else (case shapeFilter opts of Some f \<Rightarrow> f shape | None \<Rightarrow> True))
       (if renderingOnly opts then getCurrentPageRenderingShapesSorted H
        else getCurrentPageShapesSorted H)"

text \<open>
  The variables of the loop. The two trackers start at \<open>Infinity\<close>, written \<open>None\<close>; the
  two hits start at \<open>null\<close>.
\<close>

record hit_state =
  inHollowSmallestArea :: "real option"
  inHollowSmallestAreaHit :: "shape option"
  inMarginClosestToEdgeDistance :: "real option"
  inMarginClosestToEdgeHit :: "shape option"

definition initialState :: hit_state where
  "initialState =
     \<lparr>inHollowSmallestArea = None, inHollowSmallestAreaHit = None,
      inMarginClosestToEdgeDistance = None, inMarginClosestToEdgeHit = None\<rparr>"

text \<open>One pass of the loop body returns from the function, goes on to the next shape, or
  throws a \<open>TypeError\<close>.\<close>

datatype hit_step = Return "shape option" | Continue hit_state | Throw

definition orElse :: "'a option \<Rightarrow> 'a option \<Rightarrow> 'a option" where
  "orElse a b = (case a of Some v \<Rightarrow> Some v | None \<Rightarrow> b)"

text \<open>
  \<open>String.prototype.trim\<close> strips the white space and the line terminators of ECMAScript
  from both ends: tab, line feed, vertical tab, form feed, carriage return, space,
  no-break space, the byte order mark, the line and paragraph separators, and the other
  space separators of Unicode.
\<close>

definition isWhiteSpace :: "nat \<Rightarrow> bool" where
  "isWhiteSpace c =
     (c \<in> set [0x09, 0x0A, 0x0B, 0x0C, 0x0D, 0x20, 0xA0, 0x1680, 0x2028, 0x2029, 0x202F,
               0x205F, 0x3000, 0xFEFF] \<or>
      (0x2000 \<le> c \<and> c \<le> 0x200A))"

definition trim :: "js_text \<Rightarrow> js_text" where
  "trim s = rev (dropWhile isWhiteSpace (rev (dropWhile isWhiteSpace s)))"

text \<open>
  "Check labels first": \<open>Some True\<close> when the loop returns the shape for a hit of one of its
  labels, \<open>None\<close> when the geometry is cast to a \<open>Group2d\<close> and has no \<open>children\<close>.
\<close>

definition checkLabels :: "shape \<Rightarrow> geometry \<Rightarrow> vec \<Rightarrow> bool option" where
  "checkLabels shape geom pointInShapeSpace =
     (let labelled =
            (case props shape of
               ArrowProps _ _ text \<Rightarrow> trim text \<noteq> []
             | GeoProps fill text \<Rightarrow> fill = ''none'' \<and> trim text \<noteq> []
             | _ \<Rightarrow> False)
      in if labelled then
           (case children geom of
              None \<Rightarrow> None
            | Some cs \<Rightarrow>
                Some (list_ex (\<lambda>childGeometry.
                        isLabel childGeometry \<and> isPointInBounds childGeometry pointInShapeSpace) cs))
         else Some False)"

text \<open>The distance of the point to the shape; \<open>None\<close> is \<open>Infinity\<close>.\<close>

definition minDistance :: "hit_opts \<Rightarrow> vec \<Rightarrow> geometry list \<Rightarrow> real option" where
  "minDistance opts pointInShapeSpace cs =
     foldl
       (\<lambda>minD childGeometry.
          if isLabel childGeometry \<and> \<not> hitLabels opts then minD
          else
            (let tDistance = distanceToPoint childGeometry pointInShapeSpace (hitInside opts)
             in (case minD of
                   None \<Rightarrow> Some tDistance
                 | Some d \<Rightarrow> if tDistance < d then Some tDistance else Some d)))
       None cs"

definition shapeDistance :: "hit_env \<Rightarrow> hit_opts \<Rightarrow> geometry \<Rightarrow> vec \<Rightarrow> real option" where
  "shapeDistance H opts geom pointInShapeSpace =
     (case children geom of
        Some cs \<Rightarrow> minDistance opts pointInShapeSpace cs
      | None \<Rightarrow>
          if margin opts = 0 \<and> (boxW (bounds geom) < 1 \<or> boxH (bounds geom) < 1)
          then Some (distanceToPoint geom pointInShapeSpace (hitInside opts))
          else if Box_containsPoint H (bounds geom) pointInShapeSpace (margin opts)
          then Some (distanceToPoint geom pointInShapeSpace (hitInside opts))
          else None)"

text \<open>\<open>geometry.isFilled || (isGroup && geometry.children[0].isFilled)\<close>; reading the first
  child of a group without children throws.\<close>

definition filledForHit :: "geometry \<Rightarrow> bool option" where
  "filledForHit geom =
     (if isFilled geom then Some True
      else (case children geom of
              None \<Rightarrow> Some False
            | Some [] \<Rightarrow> None
            | Some (c # _) \<Rightarrow> Some (isFilled c)))"

text \<open>\<open>distance < HIT_TEST_MARGIN / zoomLevel\<close>, with the quotient of JavaScript at a zoom
  level of zero: \<open>Infinity\<close> for a positive margin, and no number below it otherwise.\<close>

definition belowOpenMargin :: "hit_env \<Rightarrow> real option \<Rightarrow> bool" where
  "belowOpenMargin H distance =
     (case distance of
        None \<Rightarrow> False
      | Some d \<Rightarrow>
          if getZoomLevel H = 0 then 0 < HIT_TEST_MARGIN H
          else d < HIT_TEST_MARGIN H / getZoomLevel H)"

definition frameStep :: "hit_opts \<Rightarrow> shape \<Rightarrow> geometry \<Rightarrow> vec \<Rightarrow> hit_state \<Rightarrow> hit_step" where
  "frameStep opts shape geom pointInShapeSpace \<sigma> =
     (let distance = distanceToPoint geom pointInShapeSpace (hitInside opts)
      in if \<bar>distance\<bar> \<le> margin opts then
           Return (orElse (inMarginClosestToEdgeHit \<sigma>) (Some shape))
         else if hitTestPoint geom pointInShapeSpace 0 True then
           Return (orElse (inMarginClosestToEdgeHit \<sigma>)
                     (orElse (inHollowSmallestAreaHit \<sigma>)
                        (if hitFrameInside opts then Some shape else None)))
         else Continue \<sigma>)"

text \<open>The branch of a closed shape that is not filled, at a distance within the margin.
  The page bounds of the shape are read with a non-null assertion: without bounds the
  call of \<open>contains\<close> throws.\<close>

definition hollowStep :: "hit_env \<Rightarrow> hit_opts \<Rightarrow> shape \<Rightarrow> geometry \<Rightarrow> real \<Rightarrow> hit_state \<Rightarrow> hit_step"
  where
  "hollowStep H opts shape geom distance \<sigma> =
     (case getShapePageBounds H (shapeId shape) of
        None \<Rightarrow> Throw
      | Some pageBounds \<Rightarrow>
          if Box_contains H pageBounds (getViewportPageBounds H) then Continue \<sigma>
          else if \<bar>distance\<bar> < margin opts then
            (if (case inMarginClosestToEdgeDistance \<sigma> of
                   None \<Rightarrow> True
                 | Some best \<Rightarrow> \<bar>distance\<bar> < best)
             then Continue (\<sigma>\<lparr>inMarginClosestToEdgeDistance := Some \<bar>distance\<bar>,
                               inMarginClosestToEdgeHit := Some shape\<rparr>)
             else Continue \<sigma>)
          else if inMarginClosestToEdgeHit \<sigma> = None then
            (if (case inHollowSmallestArea \<sigma> of None \<Rightarrow> True | Some best \<Rightarrow> area geom < best)
             then Continue (\<sigma>\<lparr>inHollowSmallestArea := Some (area geom),
                               inHollowSmallestAreaHit := Some shape\<rparr>)
             else Continue \<sigma>)
          else Continue \<sigma>)"

definition hitStep :: "hit_env \<Rightarrow> hit_opts \<Rightarrow> vec \<Rightarrow> shape \<Rightarrow> hit_state \<Rightarrow> hit_step" where
  "hitStep H opts point shape \<sigma> =
     (let geom = getShapeGeometry H (shapeId shape);
          pointInShapeSpace = getPointInShapeSpace H (shapeId shape) point
      in case checkLabels shape geom pointInShapeSpace of
           None \<Rightarrow> Throw
         | Some True \<Rightarrow> Return (Some shape)
         | Some False \<Rightarrow>
             if isShapeOfType shape ''frame'' then frameStep opts shape geom pointInShapeSpace \<sigma>
             else
               (let distance = shapeDistance H opts geom pointInShapeSpace
                in if isClosed geom then
                     (case distance of
                        None \<Rightarrow> Continue \<sigma>
                      | Some d \<Rightarrow>
                          if d \<le> margin opts then
                            (case filledForHit geom of
                               None \<Rightarrow> Throw
                             | Some True \<Rightarrow> Return (orElse (inMarginClosestToEdgeHit \<sigma>) (Some shape))
                             | Some False \<Rightarrow> hollowStep H opts shape geom d \<sigma>)
                          else Continue \<sigma>)
                   else if belowOpenMargin H distance then Return (Some shape)
                   else Continue \<sigma>))"

text \<open>The loop runs from the last shape to check down to the first: \<open>hitLoop\<close> takes the
  shapes in the order they are visited.\<close>

fun hitLoop :: "hit_env \<Rightarrow> hit_opts \<Rightarrow> vec \<Rightarrow> shape list \<Rightarrow> hit_state \<Rightarrow> hit_step" where
  "hitLoop H opts point [] \<sigma> = Continue \<sigma>"
| "hitLoop H opts point (shape # rest) \<sigma> =
     (case hitStep H opts point shape \<sigma> of
        Continue \<sigma>' \<Rightarrow> hitLoop H opts point rest \<sigma>'
      | r \<Rightarrow> r)"

text \<open>The result \<open>None\<close> is a thrown \<open>TypeError\<close>; \<open>Some None\<close> is \<open>undefined\<close>, no hit.\<close>

definition getShapeAtPoint :: "hit_env \<Rightarrow> vec \<Rightarrow> hit_opts \<Rightarrow> shape option option" where
  "getShapeAtPoint H point opts =
     (case hitLoop H opts point (rev (shapesToCheck H point opts)) initialState of
        Return r \<Rightarrow> Some r
      | Continue \<sigma> \<Rightarrow>
          Some (orElse (inMarginClosestToEdgeHit \<sigma>) (inHollowSmallestAreaHit \<sigma>))
      | Throw \<Rightarrow> None)"

section \<open>Vocabulary for the claims on hit testing\<close>

text \<open>
  \<open>holds \<sigma> s\<close>: the loop has recorded \<open>s\<close> as one of its two pending candidates.
\<close>

definition holds :: "hit_state \<Rightarrow> shape \<Rightarrow> bool" where
  "holds \<sigma> s = (inMarginClosestToEdgeHit \<sigma> = Some s \<or> inHollowSmallestAreaHit \<sigma> = Some s)"

text \<open>
  \<open>hollowCandidate\<close>: the absolute edge distance and the area with which a shape enters the
  tracking of hollow shapes, that is, when it is no frame, its geometry is closed, its
  distance is within the margin, it is not filled, and its page bounds do not contain the
  viewport.
\<close>

definition hollowCandidate :: "hit_env \<Rightarrow> hit_opts \<Rightarrow> vec \<Rightarrow> shape \<Rightarrow> (real \<times> real) option" where
  "hollowCandidate H opts point shape =
     (let geom = getShapeGeometry H (shapeId shape);
          pointInShapeSpace = getPointInShapeSpace H (shapeId shape) point
      in if isShapeOfType shape ''frame'' \<or> \<not> isClosed geom then None
         else
           (case shapeDistance H opts geom pointInShapeSpace of
              None \<Rightarrow> None
            | Some d \<Rightarrow>
                if d \<le> margin opts \<and> filledForHit geom = Some False \<and>
                   (case getShapePageBounds H (shapeId shape) of
                      None \<Rightarrow> False
                    | Some pageBounds \<Rightarrow> \<not> Box_contains H pageBounds (getViewportPageBounds H))
                then Some (\<bar>d\<bar>, area geom)
                else None))"

text \<open>
  \<open>passes\<close>: the loop body goes on to the next shape: no label, frame, filled or open shape
  gives an immediate hit (and nothing throws).
\<close>

definition passes :: "hit_env \<Rightarrow> hit_opts \<Rightarrow> vec \<Rightarrow> shape \<Rightarrow> bool" where
  "passes H opts point shape =
     (case hitStep H opts point shape initialState of Continue _ \<Rightarrow> True | _ \<Rightarrow> False)"

text \<open>The update of the trackers by a candidate, and the invariant of the loop over the set
  \<open>S\<close> of the shapes visited so far.\<close>

definition track :: "hit_opts \<Rightarrow> shape \<Rightarrow> (real \<times> real) option \<Rightarrow> hit_state \<Rightarrow> hit_state" where
  "track opts shape cand \<sigma> =
     (case cand of
        None \<Rightarrow> \<sigma>
      | Some (d, a) \<Rightarrow>
          if d < margin opts then
            (if (case inMarginClosestToEdgeDistance \<sigma> of None \<Rightarrow> True | Some best \<Rightarrow> d < best)
             then \<sigma>\<lparr>inMarginClosestToEdgeDistance := Some d, inMarginClosestToEdgeHit := Some shape\<rparr>
             else \<sigma>)
          else if inMarginClosestToEdgeHit \<sigma> = None then
            (if (case inHollowSmallestArea \<sigma> of None \<Rightarrow> True | Some best \<Rightarrow> a < best)
             then \<sigma>\<lparr>inHollowSmallestArea := Some a, inHollowSmallestAreaHit := Some shape\<rparr>
             else \<sigma>)
          else \<sigma>)"

definition tracks :: "hit_env \<Rightarrow> hit_opts \<Rightarrow> vec \<Rightarrow> shape set \<Rightarrow> hit_state \<Rightarrow> bool" where
  "tracks H opts point S \<sigma> =
     (case inMarginClosestToEdgeHit \<sigma> of
        Some s \<Rightarrow>
          s \<in> S \<and>
          (\<exists>d a. hollowCandidate H opts point s = Some (d, a) \<and> d < margin opts \<and>
             inMarginClosestToEdgeDistance \<sigma> = Some d \<and>
             (\<forall>c \<in> S. \<forall>d' a'. hollowCandidate H opts point c = Some (d', a') \<longrightarrow>
                d' < margin opts \<longrightarrow> d \<le> d'))
      | None \<Rightarrow>
          inMarginClosestToEdgeDistance \<sigma> = None \<and>
          (\<forall>c \<in> S. \<forall>d' a'. hollowCandidate H opts point c = Some (d', a') \<longrightarrow>
             \<not> d' < margin opts) \<and>
          (case inHollowSmallestAreaHit \<sigma> of
             Some s \<Rightarrow>
               s \<in> S \<and>
               (\<exists>d a. hollowCandidate H opts point s = Some (d, a) \<and>
                  inHollowSmallestArea \<sigma> = Some a \<and>
                  (\<forall>c \<in> S. \<forall>d' a'. hollowCandidate H opts point c = Some (d', a') \<longrightarrow> a \<le> a'))
           | None \<Rightarrow>
               inHollowSmallestArea \<sigma> = None \<and>
               (\<forall>c \<in> S. hollowCandidate H opts point c = None)))"

section \<open>Walks along the parent references\<close>

text \<open>
  \<open>getShapeParent\<close> takes a shape or \<open>undefined\<close>, reads the fresh record of that id, and
  returns the record of its parent when the parent reference is a shape id.
\<close>

definition getShapeParent :: "store \<Rightarrow> shape option \<Rightarrow> shape option" where
  "getShapeParent st arg =
     (case arg of
        None \<Rightarrow> None
      | Some shape \<Rightarrow>
          (case getShape st (shapeId shape) of
             None \<Rightarrow> None
           | Some freshShape \<Rightarrow>
               (case parentId freshShape of
                  PageId _ \<Rightarrow> None
                | ShapeId pid \<Rightarrow> getShape st pid)))"

partial_function (option) hasAncestor :: "store \<Rightarrow> shape option \<Rightarrow> shape_id \<Rightarrow> bool option" where
  "hasAncestor st arg ancestorId =
     (case arg of
        None \<Rightarrow> Some False
      | Some shape \<Rightarrow>
          (case getShape st (shapeId shape) of
             None \<Rightarrow> Some False
           | Some freshShape \<Rightarrow>
               if parentId freshShape = ShapeId ancestorId then Some True
               else hasAncestor st (getShapeParent st (Some freshShape)) ancestorId))"

partial_function (option) isShapeOrAncestorLocked :: "store \<Rightarrow> shape option \<Rightarrow> bool option" where
  "isShapeOrAncestorLocked st arg =
     (case arg of
        None \<Rightarrow> Some False
      | Some shape \<Rightarrow>
          if isLocked shape then Some True
          else isShapeOrAncestorLocked st (getShapeParent st (Some shape)))"

partial_function (option) getAncestorPageId :: "store \<Rightarrow> shape option \<Rightarrow> page_id option option"
  where
  "getAncestorPageId st arg =
     (case arg of
        None \<Rightarrow> Some None
      | Some shape \<Rightarrow>
          (case getShape st (shapeId shape) of
             None \<Rightarrow> Some None
           | Some fresh \<Rightarrow>
               (case parentId fresh of
                  PageId pg \<Rightarrow> Some (Some pg)
                | ShapeId pid \<Rightarrow> getAncestorPageId st (getShape st pid))))"





definition compact :: "'a option list \<Rightarrow> 'a list" where
  "compact vs = List.map_filter (\<lambda>v. v) vs"


section \<open>The child index\<close>

text \<open>
  Modelled from the spec: the derivation \<open>parentsToChildren\<close> behind
  \<open>getSortedChildIdsForParent\<close> is not part of this development. The child index maps a
  parent id to the list of the ids of its children, ordered by order key. Order keys are
  compared as strings.
\<close>

definition getSortedChildIdsForParent :: "store \<Rightarrow> parent_id \<Rightarrow> shape_id list" where
  "getSortedChildIdsForParent st p =
     map shapeId (sort_key shapeIndex (filter (\<lambda>s. parentId s = p) st))"

section \<open>Writing to the store\<close>

text \<open>
  The state that the operations below change: the shape records of the store, and the set
  \<open>invalidParents\<close> that the change handlers of the editor fill.
\<close>

type_synonym state = "store \<times> shape_id set"

text \<open>
  \<open>store.put\<close>, as the operations see it: it takes the state and the records, and may not
  return. The operations take it as their first argument; the store itself, with the
  handlers that the editor registers on it, is \<open>storePut\<close> below.
\<close>

type_synonym store_put = "state \<Rightarrow> shape list \<Rightarrow> state option"

text \<open>A \<open>for ... of\<close> loop over a body that changes the state and may not return.\<close>

primrec forEach :: "('s \<Rightarrow> 'a \<Rightarrow> 's option) \<Rightarrow> 's \<Rightarrow> 'a list \<Rightarrow> 's option" where
  "forEach body s [] = Some s"
| "forEach body s (x # xs) = Option.bind (body s x) (\<lambda>s'. forEach body s' xs)"

text \<open>
  The records of the store after a write, before any handler has run: a record replaces
  the record of its id, or is added.
\<close>

definition replace1 :: "store \<Rightarrow> shape \<Rightarrow> store" where
  "replace1 st r =
     (if \<exists>s \<in> set st. shapeId s = shapeId r
      then map (\<lambda>s. if shapeId s = shapeId r then r else s) st
      else st @ [r])"

definition replaceRecords :: "store \<Rightarrow> shape list \<Rightarrow> store" where
  "replaceRecords st rs = foldl replace1 st rs"

section \<open>Updating shapes\<close>

text \<open>
  A shape partial as the operations below build it: the id, and the base properties that
  are present. A field \<open>None\<close> is a key that is absent (or \<open>undefined\<close>); the partials built
  here carry no \<open>props\<close> and no \<open>meta\<close>, and \<open>id\<close> and \<open>type\<close> are never applied.
\<close>

record shape_partial =
  partialId :: shape_id
  partialParentId :: "parent_id option"
  partialX :: "real option"
  partialY :: "real option"
  partialRotation :: "real option"
  partialIndex :: "index_key option"
  partialIsLocked :: "bool option"

definition applyPartialToShape :: "shape \<Rightarrow> shape_partial \<Rightarrow> shape" where
  "applyPartialToShape prev partial =
     prev\<lparr>parentId := (case partialParentId partial of Some v \<Rightarrow> v | None \<Rightarrow> parentId prev),
          shapeX := (case partialX partial of Some v \<Rightarrow> v | None \<Rightarrow> shapeX prev),
          shapeY := (case partialY partial of Some v \<Rightarrow> v | None \<Rightarrow> shapeY prev),
          rotation := (case partialRotation partial of Some v \<Rightarrow> v | None \<Rightarrow> rotation prev),
          shapeIndex := (case partialIndex partial of Some v \<Rightarrow> v | None \<Rightarrow> shapeIndex prev),
          isLocked := (case partialIsLocked partial of Some v \<Rightarrow> v | None \<Rightarrow> isLocked prev)\<rparr>"

text \<open>
  The first loop of \<open>updateShapes\<close>: a partial is dropped when its shape is missing, or
  when the shape or an ancestor is locked and the partial has no \<open>isLocked\<close> key.
\<close>

fun compactedPartials :: "store \<Rightarrow> shape_partial list \<Rightarrow> shape_partial list option" where
  "compactedPartials st [] = Some []"
| "compactedPartials st (partial # rest) =
     (case getShape st (partialId partial) of
        None \<Rightarrow> compactedPartials st rest
      | Some shape \<Rightarrow>
          Option.bind (isShapeOrAncestorLocked st (Some shape))
            (\<lambda>locked.
               if locked \<and> partialIsLocked partial = None then compactedPartials st rest
               else map_option ((#) partial) (compactedPartials st rest)))"

text \<open>
  \<open>_updateShapes\<close>: nothing is written in read-only mode; otherwise every partial whose
  shape exists and is changed by it gives one record, passed through \<open>onBeforeUpdate\<close>
  (\<open>hooked\<close>: the hook's result, or the updated record when the hook is absent or returns
  nothing), and the records are put in one call of \<open>store.put\<close>. Two records are the same
  object exactly when the partial changes no field.
\<close>

definition hooked :: "'m collab \<Rightarrow> shape \<Rightarrow> shape \<Rightarrow> shape" where
  "hooked E shape updated =
     (case onBeforeUpdate E shape updated of Some replaced \<Rightarrow> replaced | None \<Rightarrow> updated)"

definition updatesFor :: "'m collab \<Rightarrow> store \<Rightarrow> shape_partial list \<Rightarrow> shape list" where
  "updatesFor E st partials =
     List.map_filter
       (\<lambda>partial.
          case getShape st (partialId partial) of
            None \<Rightarrow> None
          | Some shape \<Rightarrow>
              let updated = applyPartialToShape shape partial
              in if updated = shape then None else Some (hooked E shape updated))
       partials"

definition updateShapesInternal ::
  "store_put \<Rightarrow> 'm collab \<Rightarrow> state \<Rightarrow> shape_partial list \<Rightarrow> state option" where
  "updateShapesInternal sput E s partials =
     (if isReadonly E then Some s else sput s (updatesFor E (fst s) partials))"

definition updateShapes ::
  "store_put \<Rightarrow> 'm collab \<Rightarrow> state \<Rightarrow> shape_partial list \<Rightarrow> state option" where
  "updateShapes sput E s partials =
     Option.bind (compactedPartials (fst s) partials) (updateShapesInternal sput E s)"

section \<open>Reparenting\<close>

text \<open>
  The order keys that \<open>reparentShapes\<close> gives to the moved shapes. An \<open>insertIndex\<close> that is
  absent or the empty string is falsy.
\<close>

definition sibAfter :: "shape list \<Rightarrow> shape \<Rightarrow> shape option" where
  "sibAfter sibs sib =
     (case dropWhile (\<lambda>s. s \<noteq> sib) sibs of
        _ # nxt # _ \<Rightarrow> Some nxt
      | _ \<Rightarrow> None)"

definition reparentIndices ::
  "'m collab \<Rightarrow> shape list \<Rightarrow> index_key option \<Rightarrow> nat \<Rightarrow> index_key list" where
  "reparentIndices E sibs insertIndex n =
     (case (if insertIndex = Some [] then None else insertIndex) of
        Some ins \<Rightarrow>
          (case find (\<lambda>s. shapeIndex s = ins) sibs of
             Some sibWithInsertIndex \<Rightarrow>
               (case sibAfter sibs sibWithInsertIndex of
                  Some sibAbove \<Rightarrow> getIndicesBetween E ins (shapeIndex sibAbove) n
                | None \<Rightarrow> getIndicesAbove E ins n)
           | None \<Rightarrow>
               (case find (\<lambda>s. ins < shapeIndex s) (sort_key shapeIndex sibs) of
                  Some sibAbove \<Rightarrow> getIndicesBetween E ins (shapeIndex sibAbove) n
                | None \<Rightarrow> getIndicesAbove E ins n))
      | None \<Rightarrow>
          (case sibs of
             [] \<Rightarrow> getIndices E n
           | _ \<Rightarrow> getIndicesAbove E (shapeIndex (last sibs)) n))"

definition nthOpt :: "'a list \<Rightarrow> nat \<Rightarrow> 'a option" where
  "nthOpt vs k = (if k < length vs then Some (vs ! k) else None)"

text \<open>The changes pushed by the loop over \<open>shapesToReparent\<close>.\<close>

definition reparentChange ::
  "'m collab \<Rightarrow> store \<Rightarrow> parent_id \<Rightarrow> 'm \<Rightarrow> index_key list \<Rightarrow> nat \<times> shape \<Rightarrow> shape_partial option"
  where
  "reparentChange E st newParent parentTransform indices ishape =
     (case ishape of
        (k, shape) \<Rightarrow>
          map_option
            (\<lambda>pageTransform.
               let pagePoint = Mat_point E pageTransform;
                   newPoint = Mat_applyToPoint E (Mat_invert E parentTransform) pagePoint;
                   newRotation = Mat_rotation E pageTransform - Mat_rotation E parentTransform
               in \<lparr>partialId = shapeId shape, partialParentId = Some newParent,
                   partialX = Some (fst newPoint), partialY = Some (snd newPoint),
                   partialRotation = Some newRotation, partialIndex = nthOpt indices k,
                   partialIsLocked = Some (isLocked shape)\<rparr>)
            (getShapePageTransform E st (shapeId shape)))"

definition unlockPartial :: "shape \<Rightarrow> shape_partial" where
  "unlockPartial shape =
     \<lparr>partialId = shapeId shape, partialParentId = None, partialX = None, partialY = None,
      partialRotation = None, partialIndex = None, partialIsLocked = Some False\<rparr>"

text \<open>
  \<open>reparentShapes\<close>. The shapes to reparent are read before the locked ones are unlocked,
  so the \<open>isLocked\<close> key of a change carries the lock flag that the shape had at the call;
  the page transforms of the loop are read after the unlocking write and its handlers.
\<close>

definition reparentShapes ::
  "store_put \<Rightarrow> 'm collab \<Rightarrow> state \<Rightarrow> shape_id list \<Rightarrow> parent_id \<Rightarrow> index_key option
     \<Rightarrow> state option" where
  "reparentShapes sput E s ids newParent insertIndex =
     (if ids = [] then Some s
      else
        Option.bind
          (case newParent of
             PageId _ \<Rightarrow> Some (Mat_Identity E)
           | ShapeId pid \<Rightarrow> getShapePageTransform E (fst s) pid)
          (\<lambda>parentTransform.
             let sibs = compact (map (getShape (fst s))
                                  (getSortedChildIdsForParent (fst s) newParent));
                 indices = reparentIndices E sibs insertIndex (length ids);
                 shapesToReparent = compact (map (getShape (fst s)) ids);
                 lockedShapes = filter isLocked shapesToReparent
             in Option.bind
                  (if lockedShapes \<noteq> []
                   then updateShapes sput E s (map unlockPartial lockedShapes)
                   else Some s)
                  (\<lambda>s1.
                     Option.bind
                       (those (map (reparentChange E (fst s1) newParent parentTransform indices)
                                 (enumerate 0 shapesToReparent)))
                       (\<lambda>changes. updateShapes sput E s1 changes))))"
section \<open>Keeping arrows consistent\<close>

text \<open>
  The two handles of an arrow, the terminal of a handle, and the shape a terminal is bound
  to (\<open>undefined\<close> for a point terminal and for a binding whose shape is missing).
\<close>

datatype handle_id = HandleStart | HandleEnd

definition terminalAt :: "shape \<Rightarrow> handle_id \<Rightarrow> terminal option" where
  "terminalAt arrow handleId =
     (case props arrow of
        ArrowProps start end _ \<Rightarrow> Some (case handleId of HandleStart \<Rightarrow> start | HandleEnd \<Rightarrow> end)
      | _ \<Rightarrow> None)"






definition indexPartial :: "shape_id \<Rightarrow> index_key \<Rightarrow> shape_partial" where
  "indexPartial i k =
     \<lparr>partialId = i, partialParentId = None, partialX = None, partialY = None,
      partialRotation = None, partialIndex = Some k, partialIsLocked = None\<rparr>"



text \<open>
  Modelled from the spec: the derivation \<open>arrowBindingsIndex\<close> is not part of this
  development. A connector binding is an endpoint reference from a connector shape to a
  target shape id plus a handle tag; the index lists, for a shape id, the arrows and
  handles bound to it.
\<close>

definition bindingsOf :: "shape_id \<Rightarrow> shape \<Rightarrow> (shape_id \<times> handle_id) list" where
  "bindingsOf target s =
     (case props s of
        ArrowProps start end _ \<Rightarrow>
          (case start of
             BindingTerminal b _ _ _ \<Rightarrow> if b = target then [(shapeId s, HandleStart)] else []
           | PointTerminal _ _ \<Rightarrow> []) @
          (case end of
             BindingTerminal b _ _ _ \<Rightarrow> if b = target then [(shapeId s, HandleEnd)] else []
           | PointTerminal _ _ \<Rightarrow> [])
      | _ \<Rightarrow> [])"

definition getArrowsBoundTo :: "store \<Rightarrow> shape_id \<Rightarrow> (shape_id \<times> handle_id) list" where
  "getArrowsBoundTo st target = concat (map (bindingsOf target) st)"

text \<open>
  Modelled from the spec: \<open>getArrowTerminalsInArrowSpace\<close> is not part of this development.
  An endpoint is a fixed coordinate (a point terminal) or bound to a target, and has a
  resolved page-space position. The helper gives the two endpoints in the space of the
  arrow: a point terminal is its own coordinates; a bound terminal is its resolved
  page-space position, mapped by the inverse of the page transform of the arrow. The
  helper throws when the arrow has no page transform.
\<close>

definition getArrowTerminalInArrowSpace ::
  "'m collab \<Rightarrow> store \<Rightarrow> 'm \<Rightarrow> shape \<Rightarrow> terminal \<Rightarrow> vec" where
  "getArrowTerminalInArrowSpace E st arrowPageTransform arrow t =
     (case t of
        PointTerminal px py \<Rightarrow> (px, py)
      | BindingTerminal _ _ _ _ \<Rightarrow>
          Mat_applyToPoint E (Mat_invert E arrowPageTransform) (endpointPagePoint E st arrow t))"

definition getArrowTerminalsInArrowSpace ::
  "'m collab \<Rightarrow> store \<Rightarrow> shape \<Rightarrow> (handle_id \<Rightarrow> vec) option" where
  "getArrowTerminalsInArrowSpace E st arrow =
     Option.bind (getShapePageTransform E st (shapeId arrow)) (\<lambda>arrowPageTransform.
       case props arrow of
         ArrowProps start end _ \<Rightarrow>
           Some (\<lambda>handleId.
                   case handleId of
                     HandleStart \<Rightarrow>
                       getArrowTerminalInArrowSpace E st arrowPageTransform arrow start
                   | HandleEnd \<Rightarrow>
                       getArrowTerminalInArrowSpace E st arrowPageTransform arrow end)
       | _ \<Rightarrow> None)"

text \<open>
  \<open>unbindArrowTerminal\<close> replaces the terminal of the handle by a point terminal at the
  coordinates that \<open>getArrowTerminalsInArrowSpace\<close> gives for that handle, and puts the
  arrow it was given with this terminal.
\<close>

definition withPointTerminal :: "shape \<Rightarrow> handle_id \<Rightarrow> vec \<Rightarrow> shape" where
  "withPointTerminal arrow handleId pt =
     arrow\<lparr>props :=
       (case props arrow of
          ArrowProps start end label \<Rightarrow>
            (case handleId of
               HandleStart \<Rightarrow> ArrowProps (PointTerminal (fst pt) (snd pt)) end label
             | HandleEnd \<Rightarrow> ArrowProps start (PointTerminal (fst pt) (snd pt)) label)
        | other \<Rightarrow> other)\<rparr>"

definition unbindArrowTerminal ::
  "store_put \<Rightarrow> 'm collab \<Rightarrow> state \<Rightarrow> shape \<Rightarrow> handle_id \<Rightarrow> state option" where
  "unbindArrowTerminal sput E s arrow handleId =
     Option.bind (getArrowTerminalsInArrowSpace E (fst s) arrow) (\<lambda>terminals.
       sput s [withPointTerminal arrow handleId (terminals handleId)])"





definition invalidate :: "parent_id \<Rightarrow> shape_id set \<Rightarrow> shape_id set" where
  "invalidate p invalidParents =
     (case p of ShapeId i \<Rightarrow> insert i invalidParents | PageId _ \<Rightarrow> invalidParents)"



definition beforeDelete :: "store_put \<Rightarrow> 'm collab \<Rightarrow> state \<Rightarrow> shape \<Rightarrow> state option" where
  "beforeDelete sput E s record =
     forEach
       (\<lambda>s' binding.
          case getShape (fst s') (fst binding) of
            None \<Rightarrow> Some s'
          | Some arrow \<Rightarrow> unbindArrowTerminal sput E s' arrow (snd binding))
       (fst s, invalidate (parentId record) (snd s))
       (getArrowsBoundTo (fst s) (shapeId record))"

section \<open>The store and its change notification\<close>



section \<open>Vocabulary for the claims\<close>


text \<open>\<open>arrowAt st a\<close>: the record of the id \<open>a\<close> is an arrow.\<close>

definition arrowAt :: "store \<Rightarrow> shape_id \<Rightarrow> bool" where
  "arrowAt st a = (\<exists>s start end text. getShape st a = Some s \<and> props s = ArrowProps start end text)"

text \<open>
  \<open>isAncestor st c i\<close>: the shape id \<open>c\<close> is met on the walk from the shape \<open>i\<close> along the
  parent references. The lowest common ancestor of two shapes is a shape of the store that
  is an ancestor of both and lies below every other such shape.
\<close>

inductive isAncestor :: "store \<Rightarrow> shape_id \<Rightarrow> shape_id \<Rightarrow> bool" for st :: store and c :: shape_id where
  parent: "getShape st i = Some s \<Longrightarrow> parentId s = ShapeId c \<Longrightarrow> isAncestor st c i"
| above: "getShape st i = Some s \<Longrightarrow> parentId s = ShapeId q \<Longrightarrow> isAncestor st c q
          \<Longrightarrow> isAncestor st c i"

definition isCommonAncestor :: "store \<Rightarrow> shape_id \<Rightarrow> shape_id \<Rightarrow> shape_id \<Rightarrow> bool" where
  "isCommonAncestor st a b c = (getShape st c \<noteq> None \<and> isAncestor st c a \<and> isAncestor st c b)"

definition isLowestCommonAncestor :: "store \<Rightarrow> shape_id \<Rightarrow> shape_id \<Rightarrow> shape_id option \<Rightarrow> bool"
  where
  "isLowestCommonAncestor st a b r =
     (case r of
        Some c \<Rightarrow>
          isCommonAncestor st a b c \<and>
          (\<forall>c'. isCommonAncestor st a b c' \<longrightarrow> c' = c \<or> isAncestor st c' c)
      | None \<Rightarrow> (\<forall>c'. \<not> isCommonAncestor st a b c'))"

text \<open>
  \<open>firstCommon st others q r\<close>: \<open>r\<close> is the first shape on the walk from \<open>q\<close> upwards,
  \<open>q\<close> included, that is in the store and an ancestor of all of \<open>others\<close>; no \<open>r\<close> when the
  walk meets none.
\<close>

definition firstCommon :: "store \<Rightarrow> shape list \<Rightarrow> shape_id \<Rightarrow> shape_id option \<Rightarrow> bool" where
  "firstCommon st others q r =
     (case r of
        Some c \<Rightarrow>
          (c = q \<or> isAncestor st c q) \<and> getShape st c \<noteq> None \<and>
          (\<forall>v \<in> set others. isAncestor st c (shapeId v)) \<and>
          (\<forall>c'. (c' = q \<or> isAncestor st c' q) \<and> getShape st c' \<noteq> None \<and>
                (\<forall>v \<in> set others. isAncestor st c' (shapeId v)) \<longrightarrow>
                c' = c \<or> isAncestor st c' c)
      | None \<Rightarrow>
          (\<forall>c'. (c' = q \<or> isAncestor st c' q) \<and> getShape st c' \<noteq> None \<longrightarrow>
                \<not> (\<forall>v \<in> set others. isAncestor st c' (shapeId v))))"
section \<open>Vocabulary for the handlers\<close>

text \<open>
  \<open>frames Rel sput\<close>: whatever the handlers of a \<open>put\<close> do, the store that the call leaves
  is related by \<open>Rel\<close> to the store right after the write. \<open>frameConds E Rel\<close> lists what the
  single writes of the operations must satisfy for this: \<open>Rel\<close> is a preorder; it holds
  across the write of \<open>unbindArrowTerminal\<close> for a record taken from a related store (the
  write changes a bound terminal, or nothing), across
  the write of an order key, and across the two writes of \<open>reparentShapes\<close> taken together.
\<close>

definition frames :: "(store \<Rightarrow> store \<Rightarrow> bool) \<Rightarrow> store_put \<Rightarrow> bool" where
  "frames Rel sput =
     (\<forall>s rs s'. sput s rs = Some s' \<longrightarrow> Rel (replaceRecords (fst s) rs) (fst s'))"

definition boundAt :: "shape \<Rightarrow> handle_id \<Rightarrow> bool" where
  "boundAt arrow h =
     (case terminalAt arrow h of Some (BindingTerminal _ _ _ _) \<Rightarrow> True | _ \<Rightarrow> False)"

definition keptByUnbind :: "(store \<Rightarrow> store \<Rightarrow> bool) \<Rightarrow> bool" where
  "keptByUnbind Rel =
     (\<forall>W cur arrow h pt.
        getShape W (shapeId arrow) = Some arrow \<longrightarrow> Rel W cur \<longrightarrow>
        (boundAt arrow h \<or> withPointTerminal arrow h pt = arrow) \<longrightarrow>
        Rel W (replaceRecords cur [withPointTerminal arrow h pt]))"

definition keptByIndex :: "'m collab \<Rightarrow> (store \<Rightarrow> store \<Rightarrow> bool) \<Rightarrow> bool" where
  "keptByIndex E Rel =
     (\<forall>W a k cps.
        compactedPartials W [indexPartial a k] = Some cps \<longrightarrow>
        Rel W (replaceRecords W (updatesFor E W cps)))"

definition keptByReparent :: "'m collab \<Rightarrow> (store \<Rightarrow> store \<Rightarrow> bool) \<Rightarrow> bool" where
  "keptByReparent E Rel =
     (\<forall>W0 W1 ids np pT ind cps1 changes cps2.
        compactedPartials W0
          (map unlockPartial (filter isLocked (compact (map (getShape W0) ids)))) = Some cps1 \<longrightarrow>
        Rel (replaceRecords W0 (updatesFor E W0 cps1)) W1 \<longrightarrow>
        those (map (reparentChange E W1 np pT ind)
                 (enumerate 0 (compact (map (getShape W0) ids)))) = Some changes \<longrightarrow>
        compactedPartials W1 changes = Some cps2 \<longrightarrow>
        Rel W0 (replaceRecords W1 (updatesFor E W1 cps2)))"

definition frameConds :: "'m collab \<Rightarrow> (store \<Rightarrow> store \<Rightarrow> bool) \<Rightarrow> bool" where
  "frameConds E Rel =
     ((\<forall>st. Rel st st) \<and> (\<forall>a b c. Rel a b \<longrightarrow> Rel b c \<longrightarrow> Rel a c) \<and>
      keptByUnbind Rel \<and> keptByIndex E Rel \<and> keptByReparent E Rel)"





section \<open>Examples\<close>

text \<open>
  A page on which the model is run: a frame \<open>F\<close> with a child \<open>M\<close> whose clip mask is
  empty, two hollow shapes \<open>B\<close> (area 400) and \<open>S\<close> (area 100) over the same point, and two
  hollow shapes \<open>U\<close> and \<open>L\<close> larger than the viewport, \<open>L\<close> with a text label. The
  geometries are rectangles; the distance to a rectangle is negative inside it when it is
  filled or \<open>hitInside\<close> is set.
\<close>

definition rectDistance :: "real \<Rightarrow> real \<Rightarrow> bool \<Rightarrow> vec \<Rightarrow> bool \<Rightarrow> real" where
  "rectDistance w h filled p hitIn =
     (let px = fst p; py = snd p;
          inside = (0 \<le> px \<and> px \<le> w \<and> 0 \<le> py \<and> py \<le> h);
          edge = min (min \<bar>px\<bar> \<bar>w - px\<bar>) (min \<bar>py\<bar> \<bar>h - py\<bar>)
      in if inside then (if filled \<or> hitIn then - edge else edge)
         else max (max (- px) (px - w)) (max (- py) (py - h)))"

definition rectGeometry :: "real \<Rightarrow> real \<Rightarrow> bool \<Rightarrow> bool \<Rightarrow> geometry" where
  "rectGeometry w h filled lbl =
     Geometry2d True filled lbl (w * h) \<lparr>boxX = 0, boxY = 0, boxW = w, boxH = h\<rparr>
       (rectDistance w h filled)
       (\<lambda>p mrg hitIn. rectDistance w h filled p hitIn \<le> mrg)
       (\<lambda>p. 0 \<le> fst p \<and> fst p \<le> w \<and> 0 \<le> snd p \<and> snd p \<le> h)
       None"

definition groupGeometry :: "real \<Rightarrow> real \<Rightarrow> geometry list \<Rightarrow> geometry" where
  "groupGeometry w h cs =
     Geometry2d True False False (w * h) \<lparr>boxX = 0, boxY = 0, boxW = w, boxH = h\<rparr>
       (rectDistance w h False)
       (\<lambda>p mrg hitIn. rectDistance w h False p hitIn \<le> mrg)
       (\<lambda>p. 0 \<le> fst p \<and> fst p \<le> w \<and> 0 \<le> snd p \<and> snd p \<le> h)
       (Some cs)"

definition exShape :: "shape_id \<Rightarrow> parent_id \<Rightarrow> real \<Rightarrow> real \<Rightarrow> shape_props \<Rightarrow> shape" where
  "exShape i p px py pr =
     \<lparr>shapeId = i, parentId = p, shapeX = px, shapeY = py, rotation = 0,
      shapeIndex = ''a1'', isLocked = False, props = pr\<rparr>"

definition exF :: shape where "exF = exShape ''F'' (PageId ''page'') 0 0 FrameProps"
definition exM :: shape where "exM = exShape ''M'' (ShapeId ''F'') 0 0 OtherProps"
definition exB :: shape where "exB = exShape ''B'' (PageId ''page'') 0 0 (GeoProps ''none'' [])"
definition exS :: shape where "exS = exShape ''S'' (PageId ''page'') 5 5 (GeoProps ''none'' [])"
definition exU :: shape where
  "exU = exShape ''U'' (PageId ''page'') (- 100) (- 100) (GeoProps ''none'' [])"
definition exL :: shape where
  "exL = exShape ''L'' (PageId ''page'') (- 100) (- 100) (GeoProps ''none'' [0x68, 0x69])"

definition exGeometry :: "shape_id \<Rightarrow> geometry" where
  "exGeometry i =
     (if i = ''F'' then rectGeometry 100 100 False False
      else if i = ''M'' then rectGeometry 30 30 True False
      else if i = ''B'' then groupGeometry 20 20 [rectGeometry 20 20 False False]
      else if i = ''S'' then groupGeometry 10 10 [rectGeometry 10 10 False False]
      else if i = ''U'' then groupGeometry 1000 1000 [rectGeometry 1000 1000 False False]
      else groupGeometry 1000 1000
             [rectGeometry 1000 1000 False False, rectGeometry 1000 1000 False True])"

definition exOrigin :: "shape_id \<Rightarrow> vec" where
  "exOrigin i = (if i = ''S'' then (5, 5) else if i = ''U'' \<or> i = ''L'' then (- 100, - 100) else (0, 0))"

definition exInPolygon :: "vec \<Rightarrow> vec list \<Rightarrow> bool" where
  "exInPolygon p poly =
     (list_ex (\<lambda>v. fst v \<le> fst p) poly \<and> list_ex (\<lambda>v. fst p \<le> fst v) poly \<and>
      list_ex (\<lambda>v. snd v \<le> snd p) poly \<and> list_ex (\<lambda>v. snd p \<le> snd v) poly)"

definition exBoxContains :: "box \<Rightarrow> box \<Rightarrow> bool" where
  "exBoxContains A B =
     (boxX A < boxX B \<and> boxY A < boxY B \<and>
      boxY B + boxH B < boxY A + boxH A \<and> boxX B + boxW B < boxX A + boxW A)"

definition exH :: hit_env where
  "exH =
     \<lparr>getZoomLevel = 1,
      getViewportPageBounds = \<lparr>boxX = 0, boxY = 0, boxW = 50, boxH = 50\<rparr>,
      HIT_TEST_MARGIN = 8,
      getCurrentPageShapesSorted = [exF, exM, exB, exS, exU, exL],
      getCurrentPageRenderingShapesSorted = [exF, exM, exB, exS, exU, exL],
      getShapeMask = (\<lambda>i. if i = ''M'' then Some [] else None),
      getShapeGeometry = exGeometry,
      getPointInShapeSpace = (\<lambda>i p. (fst p - fst (exOrigin i), snd p - snd (exOrigin i))),
      getShapePageBounds =
        (\<lambda>i. Some \<lparr>boxX = fst (exOrigin i), boxY = snd (exOrigin i),
                    boxW = boxW (bounds (exGeometry i)), boxH = boxH (bounds (exGeometry i))\<rparr>),
      pointInPolygon = exInPolygon,
      intersectPolygonPolygon = (\<lambda>a b. None),
      Vec_Equals = (\<lambda>a b. a = b),
      Box_corners = (\<lambda>b. [(boxX b, boxY b), (boxX b + boxW b, boxY b),
                            (boxX b + boxW b, boxY b + boxH b), (boxX b, boxY b + boxH b)]),
      Box_FromPoints = (\<lambda>ps. \<lparr>boxX = 0, boxY = 0, boxW = 0, boxH = 0\<rparr>),
      Box_containsPoint =
        (\<lambda>b p mrg. \<not> (fst p < boxX b - mrg \<or> snd p < boxY b - mrg \<or>
                        boxX b + boxW b + mrg < fst p \<or> boxY b + boxH b + mrg < snd p)),
      Box_contains = exBoxContains\<rparr>"

definition exOpts :: "real \<Rightarrow> shape_id list \<Rightarrow> hit_opts" where
  "exOpts mrg ids =
     \<lparr>renderingOnly = False, margin = mrg, hitInside = True, hitLabels = False,
      hitFrameInside = False, shapeFilter = Some (\<lambda>s. shapeId s \<in> set ids)\<rparr>"

text \<open>
  A store on which the operations on the parent graph are run, and an instance of the
  collaborators. The matrices of the instance are translations (every shape of the
  examples has rotation 0): a matrix is its translation vector. The order keys of the
  instance extend a key by the letter \<open>V\<close>. The page-space position of a bound endpoint
  is the anchor on a target of size 100, taken from the corner of the target.
\<close>

definition exE :: "vec collab" where
  "exE =
     \<lparr>Mat_Identity = (0, 0),
      Mat_translate = (\<lambda>m dx dy. (fst m + dx, snd m + dy)),
      Mat_rotate = (\<lambda>m r. m),
      Mat_Compose = (\<lambda>a b. (fst a + fst b, snd a + snd b)),
      Mat_invert = (\<lambda>m. (- fst m, - snd m)),
      Mat_applyToPoint = (\<lambda>m p. (fst m + fst p, snd m + snd p)),
      Mat_point = (\<lambda>m. m),
      Mat_rotation = (\<lambda>m. 0),
      getIndices = (\<lambda>n. map (\<lambda>k. ''a'' @ replicate k CHR ''V'') [0..<n]),
      getIndicesAbove = (\<lambda>i n. map (\<lambda>k. i @ replicate (Suc k) CHR ''V'') [0..<n]),
      getIndicesBetween = (\<lambda>i j n. map (\<lambda>k. i @ replicate (Suc k) CHR ''V'') [0..<n]),
      getIndexAbove = (\<lambda>i. i @ ''V''),
      getIndexBetween = (\<lambda>i j. i @ ''V''),
      onBeforeUpdate = (\<lambda>prev next. None),
      endpointPagePoint =
        (\<lambda>st arrow t.
           case t of
             BindingTerminal b anchor _ _ \<Rightarrow>
               (case find (\<lambda>r. shapeId r = b) st of
                  None \<Rightarrow> (0, 0)
                | Some target \<Rightarrow>
                    (shapeX target + 100 * fst anchor, shapeY target + 100 * snd anchor))
           | PointTerminal px py \<Rightarrow> (px, py)),
      isReadonly = False\<rparr>"

definition stFrame :: shape where
  "stFrame = exShape ''frame'' (PageId ''page'') 10 20 FrameProps"

definition stChild :: shape where
  "stChild = exShape ''child'' (ShapeId ''frame'') 1 2 OtherProps"

definition stOrphan :: shape where
  "stOrphan = exShape ''orphan'' (ShapeId ''gone'') 3 4 OtherProps"

definition exStore :: store where
  "exStore = [stFrame, stChild, stOrphan]"





text \<open>A store with an arrow from a free point to the child of the frame.\<close>

definition stArrow :: shape where
  "stArrow =
     exShape ''arrow'' (PageId ''page'') 0 0
       (ArrowProps (PointTerminal 0 0) (BindingTerminal ''child'' (1 / 2, 1 / 2) False False) [])"

definition exArrowStore :: store where
  "exArrowStore = [stFrame, stChild, stArrow]"


text \<open>A store with an arrow on the page that is bound to two children of the frame, and
  the instance of the collaborators in read-only mode.\<close>

definition stSecond :: shape where
  "stSecond = exShape ''second'' (ShapeId ''frame'') 5 6 OtherProps"

definition stBound :: shape where
  "stBound =
     exShape ''arrow'' (PageId ''page'') 0 0
       (ArrowProps (BindingTerminal ''child'' (1 / 2, 1 / 2) False False)
          (BindingTerminal ''second'' (1 / 2, 1 / 2) False False) [])"

definition exBoundStore :: store where
  "exBoundStore = [stFrame, stChild, stSecond, stBound]"

definition exReadonly :: "vec collab" where
  "exReadonly = exE\<lparr>isReadonly := True\<rparr>"
section \<open>Page transforms\<close>

lemma getShape_id: "getShape st i = Some s \<Longrightarrow> shapeId s = i"
  by (auto simp: getShape_def find_Some_iff)

lemma getShapeLocalTransform_fresh:
  "getShape st i = Some s \<Longrightarrow>
   getShapeLocalTransform E st (shapeId s) =
     Some (Mat_rotate E (Mat_translate E (Mat_Identity E) (shapeX s) (shapeY s)) (rotation s))"
  by (simp add: getShapeLocalTransform_def getShape_id)

lemma pageTransformCache_total:
  "grounded st i \<Longrightarrow> \<exists>r. pageTransformCache E st i = Some r"
proof (induction rule: grounded.induct)
  case (missing i)
  then show ?case by (subst pageTransformCache.simps) simp
next
  case (on_page i s p)
  then show ?case
    by (subst pageTransformCache.simps) (simp add: getShapeLocalTransform_fresh)
next
  case (in_shape i s q)
  then obtain r where "pageTransformCache E st q = Some r" by blast
  with in_shape.hyps show ?case
    by (subst pageTransformCache.simps) (simp add: getShapeLocalTransform_fresh Let_def)
qed

lemma getShapePageTransform_total:
  "grounded st i \<Longrightarrow> \<exists>m. getShapePageTransform E st i = Some m"
  using pageTransformCache_total[of st i E] by (auto simp: getShapePageTransform_def)

lemma getShapePageTransform_missing:
  "getShape st i = None \<Longrightarrow> getShapePageTransform E st i = Some (Mat_Identity E)"
  by (simp add: getShapePageTransform_def pageTransformCache.simps)

lemma getShapePageTransform_on_page:
  "getShape st i = Some s \<Longrightarrow> parentId s = PageId p \<Longrightarrow>
   getShapePageTransform E st i = getShapeLocalTransform E st i"
  by (simp add: getShapePageTransform_def pageTransformCache.simps[of E st i]
      getShapeLocalTransform_fresh getShape_id option.map_comp comp_def
      getShapeLocalTransform_def)

lemma getShapePageTransform_in_shape:
  "getShape st i = Some s \<Longrightarrow> parentId s = ShapeId q \<Longrightarrow>
   getShapePageTransform E st i =
     Option.bind (getShapePageTransform E st q)
       (\<lambda>parentTransform.
          map_option (Mat_Compose E parentTransform) (getShapeLocalTransform E st i))"
  by (cases "pageTransformCache E st q")
    (simp_all add: getShapePageTransform_def pageTransformCache.simps[of E st i]
      getShape_id getShapeLocalTransform_def Let_def)

text \<open>
  Claim C1. For a shape of the store whose parent is a page, \<open>getShapePageTransform\<close> is
  the local transform built from \<open>x\<close>, \<open>y\<close> and \<open>rotation\<close>. For a shape whose parent is
  another shape of the store, it is the composition of the parent's page transform with the
  local transform. When the parent record is not in the store, the parent's transform
  falls back to the identity matrix, and with an identity that is neutral on the left the
  result is the local transform. The local transform never throws for a shape of the
  store, and on a parent chain that ends the page transform is a value.
\<close>

theorem C1_page_transform:
  assumes shape: "getShape st i = Some s"
  shows
    "getShapeLocalTransform E st i =
       Some (Mat_rotate E (Mat_translate E (Mat_Identity E) (shapeX s) (shapeY s)) (rotation s)) \<and>
     (\<forall>p. parentId s = PageId p \<longrightarrow>
        getShapePageTransform E st i = getShapeLocalTransform E st i) \<and>
     (\<forall>q parent. parentId s = ShapeId q \<longrightarrow> getShape st q = Some parent \<longrightarrow>
        getShapePageTransform E st i =
          Option.bind (getShapePageTransform E st q)
            (\<lambda>parentTransform.
               map_option (Mat_Compose E parentTransform) (getShapeLocalTransform E st i))) \<and>
     (\<forall>q. parentId s = ShapeId q \<longrightarrow> getShape st q = None \<longrightarrow>
        getShapePageTransform E st i =
          map_option (Mat_Compose E (Mat_Identity E)) (getShapeLocalTransform E st i) \<and>
        ((\<forall>m. Mat_Compose E (Mat_Identity E) m = m) \<longrightarrow>
           getShapePageTransform E st i = getShapeLocalTransform E st i)) \<and>
     (grounded st i \<longrightarrow> getShapePageTransform E st i \<noteq> None)"
proof (intro conjI allI impI)
  show loc: "getShapeLocalTransform E st i =
       Some (Mat_rotate E (Mat_translate E (Mat_Identity E) (shapeX s) (shapeY s)) (rotation s))"
    using getShapeLocalTransform_fresh[OF shape, of E] getShape_id[OF shape] by simp
  show "getShapePageTransform E st i = getShapeLocalTransform E st i"
    if "parentId s = PageId p" for p
    using getShapePageTransform_on_page[OF shape that] .
  show "getShapePageTransform E st i =
          Option.bind (getShapePageTransform E st q)
            (\<lambda>parentTransform.
               map_option (Mat_Compose E parentTransform) (getShapeLocalTransform E st i))"
    if "parentId s = ShapeId q" for q
    using getShapePageTransform_in_shape[OF shape that] .
  show fallback: "getShapePageTransform E st i =
          map_option (Mat_Compose E (Mat_Identity E)) (getShapeLocalTransform E st i)"
    if "parentId s = ShapeId q" "getShape st q = None" for q
    using getShapePageTransform_in_shape[OF shape that(1), of E]
    by (simp add: getShapePageTransform_missing[OF that(2)])
  show "getShapePageTransform E st i = getShapeLocalTransform E st i"
    if "parentId s = ShapeId q" "getShape st q = None" "\<forall>m. Mat_Compose E (Mat_Identity E) m = m"
    for q
    using fallback[OF that(1,2)] that(3) loc by simp
  show "getShapePageTransform E st i \<noteq> None" if "grounded st i"
    using getShapePageTransform_total[OF that, of E] by auto
qed


theorem C1_page_transform_witness:
  "getShape exStore ''frame'' = Some stFrame \<and> parentId stFrame = PageId ''page'' \<and>
   getShapePageTransform exE exStore ''frame'' = Some (10, 20) \<and>
   getShape exStore ''child'' = Some stChild \<and> parentId stChild = ShapeId ''frame'' \<and>
   getShapePageTransform exE exStore ''child'' = Some (11, 22) \<and>
   getShape exStore ''orphan'' = Some stOrphan \<and> parentId stOrphan = ShapeId ''gone'' \<and>
   getShape exStore ''gone'' = None \<and>
   getShapePageTransform exE exStore ''orphan'' = Some (3, 4)"
proof -
  have f: "getShape exStore ''frame'' = Some stFrame"
    and c: "getShape exStore ''child'' = Some stChild"
    and o: "getShape exStore ''orphan'' = Some stOrphan"
    and g: "getShape exStore ''gone'' = None"
    by (simp_all add: exStore_def stFrame_def stChild_def stOrphan_def exShape_def getShape_def)
  have pf: "parentId stFrame = PageId ''page''"
    and pc: "parentId stChild = ShapeId ''frame''"
    and po: "parentId stOrphan = ShapeId ''gone''"
    by (simp_all add: stFrame_def stChild_def stOrphan_def exShape_def)
  have neutral: "\<forall>m. Mat_Compose exE (Mat_Identity exE) m = m" by (simp add: exE_def)
  have tf: "getShapePageTransform exE exStore ''frame'' = Some (10, 20)"
    using C1_page_transform[OF f, of exE] pf by (simp add: exE_def stFrame_def exShape_def)
  have tc: "getShapePageTransform exE exStore ''child'' = Some (11, 22)"
    using C1_page_transform[OF c, of exE] pc f tf by (simp add: exE_def stChild_def exShape_def)
  have to: "getShapePageTransform exE exStore ''orphan'' = Some (3, 4)"
    using C1_page_transform[OF o, of exE] po g neutral
    by (simp add: exE_def stOrphan_def exShape_def)
  from f c o g pf pc po tf tc to show ?thesis by simp
qed

section \<open>Hit testing: where a returned shape comes from\<close>

lemma hollowStep_not_Return: "hollowStep H opts c g d \<sigma> \<noteq> Return r"
  by (simp add: hollowStep_def split: option.splits)

lemma hollowStep_Continue:
  "hollowStep H opts c g d \<sigma> = Continue \<sigma>' \<Longrightarrow> holds \<sigma>' r \<Longrightarrow> r = c \<or> holds \<sigma> r"
  by (auto simp: hollowStep_def holds_def split: option.splits if_splits)

lemma frameStep_Return:
  "frameStep opts c g q \<sigma> = Return (Some r) \<Longrightarrow> r = c \<or> holds \<sigma> r"
  by (auto simp: frameStep_def Let_def orElse_def holds_def split: option.splits if_splits)

lemma frameStep_Continue:
  "frameStep opts c g q \<sigma> = Continue \<sigma>' \<Longrightarrow> \<sigma>' = \<sigma>"
  by (auto simp: frameStep_def Let_def split: if_splits)

lemma hitStep_Return:
  "hitStep H opts p c \<sigma> = Return (Some r) \<Longrightarrow> r = c \<or> holds \<sigma> r"
  by (auto simp: hitStep_def Let_def orElse_def holds_def hollowStep_not_Return
      dest: frameStep_Return split: option.splits bool.splits if_splits)

lemma hitStep_Continue:
  "hitStep H opts p c \<sigma> = Continue \<sigma>' \<Longrightarrow> holds \<sigma>' r \<Longrightarrow> r = c \<or> holds \<sigma> r"
  by (auto simp: hitStep_def Let_def dest: frameStep_Continue hollowStep_Continue
      split: option.splits bool.splits if_splits)

lemma hitLoop_provenance:
  "(hitLoop H opts p cs \<sigma> = Return (Some r) \<longrightarrow> r \<in> set cs \<or> holds \<sigma> r) \<and>
   (\<forall>\<sigma>'. hitLoop H opts p cs \<sigma> = Continue \<sigma>' \<longrightarrow> holds \<sigma>' r \<longrightarrow> r \<in> set cs \<or> holds \<sigma> r)"
proof (induction cs arbitrary: \<sigma>)
  case Nil
  then show ?case by simp
next
  case (Cons c cs)
  show ?case
  proof (cases "hitStep H opts p c \<sigma>")
    case (Return x)
    then show ?thesis using hitStep_Return[of H opts p c \<sigma> r] by auto
  next
    case (Continue \<sigma>1)
    then show ?thesis using Cons.IH[of \<sigma>1] hitStep_Continue[of H opts p c \<sigma> \<sigma>1 r] by auto
  next
    case Throw
    then show ?thesis by simp
  qed
qed

lemma hitLoop_append:
  "hitLoop H opts p (xs @ ys) \<sigma> =
     (case hitLoop H opts p xs \<sigma> of Continue \<sigma>' \<Rightarrow> hitLoop H opts p ys \<sigma>' | r \<Rightarrow> r)"
  by (induction xs arbitrary: \<sigma>) (auto split: hit_step.splits)

lemma checkLabels_frame:
  "isShapeOfType s ''frame'' \<Longrightarrow> checkLabels s g q = Some False"
  by (auto simp: isShapeOfType_def checkLabels_def split: shape_props.splits)

lemma hitStep_frame:
  "isShapeOfType s ''frame'' \<Longrightarrow>
   hitStep H opts p s \<sigma> =
     frameStep opts s (getShapeGeometry H (shapeId s)) (getPointInShapeSpace H (shapeId s) p) \<sigma>"
  by (simp add: hitStep_def Let_def checkLabels_frame)

text \<open>
  Claim C4. A frame that the search reaches is decided on the spot. When the point is within
  the margin of the frame's border, the call returns the pending in-margin candidate if
  there is one, and the frame otherwise. When it is not, and the point is inside the frame,
  the call returns the pending in-margin candidate, else the pending smallest hollow
  candidate, else the frame when \<open>hitFrameInside\<close> is set, else nothing. Here the shapes
  above the frame have been visited without a return and have left the candidates \<open>\<sigma>\<close>.
\<close>

theorem C4_frame_handling:
  assumes frame: "isShapeOfType frame ''frame''"
    and order: "shapesToCheck H point opts = shapesBelow @ frame # shapesAbove"
    and reached: "hitLoop H opts point (rev shapesAbove) initialState = Continue \<sigma>"
  shows
    "(let geom = getShapeGeometry H (shapeId frame);
          pointInShapeSpace = getPointInShapeSpace H (shapeId frame) point;
          distance = distanceToPoint geom pointInShapeSpace (hitInside opts)
      in (\<bar>distance\<bar> \<le> margin opts \<longrightarrow>
            getShapeAtPoint H point opts =
              Some (case inMarginClosestToEdgeHit \<sigma> of Some hit \<Rightarrow> Some hit | None \<Rightarrow> Some frame)) \<and>
         (\<not> \<bar>distance\<bar> \<le> margin opts \<and> hitTestPoint geom pointInShapeSpace 0 True \<longrightarrow>
            getShapeAtPoint H point opts =
              Some (case inMarginClosestToEdgeHit \<sigma> of
                      Some hit \<Rightarrow> Some hit
                    | None \<Rightarrow>
                        (case inHollowSmallestAreaHit \<sigma> of
                           Some hit \<Rightarrow> Some hit
                         | None \<Rightarrow> if hitFrameInside opts then Some frame else None))))"
proof -
  have loop: "hitLoop H opts point (rev (shapesToCheck H point opts)) initialState =
      (case hitStep H opts point frame \<sigma> of
         Continue \<sigma>' \<Rightarrow> hitLoop H opts point (rev shapesBelow) \<sigma>'
       | r \<Rightarrow> r)"
    by (simp add: order hitLoop_append reached)
  show ?thesis
    by (simp add: getShapeAtPoint_def loop hitStep_frame[OF frame] frameStep_def Let_def
        orElse_def split: option.splits)
qed

lemma shapesToCheck_mask:
  "s \<in> set (shapesToCheck H point opts) \<Longrightarrow> getShapeMask H (shapeId s) = Some pageMask \<Longrightarrow>
   pointInPolygon H point pageMask"
  by (auto simp: shapesToCheck_def split: if_splits)

lemma getShapeAtPoint_mem:
  assumes res: "getShapeAtPoint H point opts = Some (Some r)"
  shows "r \<in> set (shapesToCheck H point opts)"
proof -
  have init: "\<not> holds initialState r" by (simp add: holds_def initialState_def)
  from res hitLoop_provenance[of H opts point "rev (shapesToCheck H point opts)" initialState r]
  show ?thesis using init
    by (auto simp: getShapeAtPoint_def orElse_def holds_def split: hit_step.splits option.splits)
qed

text \<open>
  Claim C5. A shape whose clip mask has no vertex has no masked page bounds, and, an empty
  polygon containing no point, neither \<open>getShapeAtPoint\<close> nor \<open>isPointInShape\<close> hits it,
  wherever the point lies with respect to its geometry.
\<close>

theorem C5_empty_mask_excluded:
  assumes mask: "getShapeMask H (shapeId s) = Some []"
    and empty: "\<not> pointInPolygon H point []"
  shows "getShapeMaskedPageBounds H (shapeId s) = Some None \<and>
         getShapeAtPoint H point opts \<noteq> Some (Some s) \<and>
         \<not> isPointInShape H (shapeId s) point mrg hitIn"
proof (intro conjI)
  show "getShapeMaskedPageBounds H (shapeId s) = Some None"
    by (simp add: getShapeMaskedPageBounds_def mask split: option.splits)
  show "getShapeAtPoint H point opts \<noteq> Some (Some s)"
    using getShapeAtPoint_mem[of H point opts s] shapesToCheck_mask[OF _ mask, of point opts] empty
    by blast
  show "\<not> isPointInShape H (shapeId s) point mrg hitIn"
    by (simp add: isPointInShape_def mask empty)
qed

section \<open>Hit testing: the candidates after the loop\<close>

lemma frameStep_kind:
  "frameStep opts c g q \<sigma>0 = Continue \<sigma>' \<Longrightarrow> frameStep opts c g q \<sigma> = Continue \<sigma>"
  by (auto simp: frameStep_def Let_def split: if_splits)

lemma hollowStep_track:
  "getShapePageBounds H (shapeId c) = Some pb \<Longrightarrow>
   hollowStep H opts c g d \<sigma> =
     Continue (track opts c (if Box_contains H pb (getViewportPageBounds H) then None
                             else Some (\<bar>d\<bar>, area g)) \<sigma>)"
  by (simp add: hollowStep_def track_def)

lemma hollowStep_Throw:
  "getShapePageBounds H (shapeId c) = None \<Longrightarrow> hollowStep H opts c g d \<sigma> = Throw"
  by (simp add: hollowStep_def)

lemma hollowCandidate_frame:
  "isShapeOfType c ''frame'' \<Longrightarrow> hollowCandidate H opts p c = None"
  by (simp add: hollowCandidate_def)

lemma hitStep_passes:
  assumes pass: "passes H opts p c"
  shows "hitStep H opts p c \<sigma> = Continue (track opts c (hollowCandidate H opts p c) \<sigma>)"
proof (cases "isShapeOfType c ''frame''")
  case True
  from pass obtain \<sigma>' where
    "frameStep opts c (getShapeGeometry H (shapeId c)) (getPointInShapeSpace H (shapeId c) p)
       initialState = Continue \<sigma>'"
    by (auto simp: passes_def hitStep_frame[OF True] split: hit_step.splits)
  then show ?thesis
    by (simp add: hitStep_frame[OF True] hollowCandidate_frame[OF True] track_def
        frameStep_kind[where \<sigma>=\<sigma>])
next
  case False
  show ?thesis
  proof (cases "getShapePageBounds H (shapeId c)")
    case None
    with pass False show ?thesis
      by (auto simp: passes_def hitStep_def Let_def hollowCandidate_def track_def hollowStep_Throw
          split: option.splits bool.splits if_splits hit_step.splits)
  next
    case (Some pb)
    with pass False show ?thesis
      by (auto simp: passes_def hitStep_def Let_def hollowCandidate_def hollowStep_track track_def
          split: option.splits bool.splits if_splits hit_step.splits)
  qed
qed

lemma tracks_initial: "tracks H opts point {} initialState"
  by (simp add: tracks_def initialState_def)

lemma track_tracks:
  assumes inv: "tracks H opts point S \<sigma>"
  shows "tracks H opts point (insert c S) (track opts c (hollowCandidate H opts point c) \<sigma>)"
proof (cases "hollowCandidate H opts point c")
  case None
  with inv show ?thesis
    by (auto simp: tracks_def track_def split: option.splits)
next
  case (Some da)
  obtain d a where da: "hollowCandidate H opts point c = Some (d, a)"
    using Some by (cases da) simp
  show ?thesis
  proof (cases "inMarginClosestToEdgeHit \<sigma>")
    case None
    note noMargin = None
    show ?thesis
    proof (cases "d < margin opts")
      case True
      with inv da noMargin show ?thesis
        by (auto simp: tracks_def track_def)
    next
      case False
      note far = False
      show ?thesis
      proof (cases "inHollowSmallestAreaHit \<sigma>")
        case None
        with inv da noMargin far show ?thesis
          by (auto simp: tracks_def track_def)
      next
        case (Some h)
        from inv noMargin Some obtain dh ah where
          h: "h \<in> S" "hollowCandidate H opts point h = Some (dh, ah)"
             "inHollowSmallestArea \<sigma> = Some ah"
             "\<forall>c \<in> S. \<forall>d' a'. hollowCandidate H opts point c = Some (d', a') \<longrightarrow> ah \<le> a'"
          and nm: "inMarginClosestToEdgeDistance \<sigma> = None"
             "\<forall>c \<in> S. \<forall>d' a'. hollowCandidate H opts point c = Some (d', a') \<longrightarrow> \<not> d' < margin opts"
          by (auto simp: tracks_def)
        show ?thesis
        proof (cases "a < ah")
          case True
          have "track opts c (Some (d, a)) \<sigma> =
                  \<sigma>\<lparr>inHollowSmallestArea := Some a, inHollowSmallestAreaHit := Some c\<rparr>"
            using far noMargin h(3) True by (simp add: track_def)
          moreover have "\<forall>x \<in> insert c S. \<forall>d' a'.
              hollowCandidate H opts point x = Some (d', a') \<longrightarrow> a \<le> a'"
            using h(4) True da by fastforce
          ultimately show ?thesis
            using da noMargin nm far by (simp add: tracks_def)
        next
          case False
          have "track opts c (Some (d, a)) \<sigma> = \<sigma>"
            using far noMargin h(3) False by (simp add: track_def)
          moreover have "\<forall>x \<in> insert c S. \<forall>d' a'.
              hollowCandidate H opts point x = Some (d', a') \<longrightarrow> ah \<le> a'"
            using h(4) False da by fastforce
          ultimately show ?thesis
            using da noMargin nm far Some h(1,2,3) by (simp add: tracks_def)
        qed
      qed
    qed
  next
    case (Some m)
    from inv Some obtain dm am where
      m: "m \<in> S" "hollowCandidate H opts point m = Some (dm, am)" "dm < margin opts"
         "inMarginClosestToEdgeDistance \<sigma> = Some dm"
         "\<forall>c \<in> S. \<forall>d' a'. hollowCandidate H opts point c = Some (d', a') \<longrightarrow>
            d' < margin opts \<longrightarrow> dm \<le> d'"
      by (auto simp: tracks_def)
    show ?thesis
    proof (cases "d < margin opts \<and> d < dm")
      case True
      have "track opts c (Some (d, a)) \<sigma> =
              \<sigma>\<lparr>inMarginClosestToEdgeDistance := Some d, inMarginClosestToEdgeHit := Some c\<rparr>"
        using True m(4) by (simp add: track_def)
      moreover have "\<forall>x \<in> insert c S. \<forall>d' a'.
          hollowCandidate H opts point x = Some (d', a') \<longrightarrow> d' < margin opts \<longrightarrow> d \<le> d'"
        using m(5) True da by fastforce
      ultimately show ?thesis
        using da True by (simp add: tracks_def)
    next
      case False
      have "track opts c (Some (d, a)) \<sigma> = \<sigma>"
        using False m(4) Some by (auto simp: track_def)
      moreover have "\<forall>x \<in> insert c S. \<forall>d' a'.
          hollowCandidate H opts point x = Some (d', a') \<longrightarrow> d' < margin opts \<longrightarrow> dm \<le> d'"
        using m(5) False da by fastforce
      ultimately show ?thesis
        using da Some m(1,2,3,4) by (simp add: tracks_def)
    qed
  qed
qed

lemma hitLoop_tracks:
  assumes "\<forall>s \<in> set cs. passes H opts point s" and "tracks H opts point S \<sigma>"
  shows "\<exists>\<sigma>'. hitLoop H opts point cs \<sigma> = Continue \<sigma>' \<and> tracks H opts point (S \<union> set cs) \<sigma>'"
  using assms
proof (induction cs arbitrary: S \<sigma>)
  case Nil
  then show ?case by simp
next
  case (Cons c cs)
  have step: "hitStep H opts point c \<sigma> = Continue (track opts c (hollowCandidate H opts point c) \<sigma>)"
    using Cons.prems(1) by (simp add: hitStep_passes)
  have "tracks H opts point (insert c S) (track opts c (hollowCandidate H opts point c) \<sigma>)"
    using Cons.prems(2) by (rule track_tracks)
  with Cons.IH[of "insert c S"] Cons.prems(1) show ?case
    by (simp add: step)
qed

lemma getShapeAtPoint_tracks:
  assumes pass: "\<forall>s \<in> set (shapesToCheck H point opts). passes H opts point s"
  shows "\<exists>\<sigma>. tracks H opts point (set (shapesToCheck H point opts)) \<sigma> \<and>
             getShapeAtPoint H point opts =
               Some (orElse (inMarginClosestToEdgeHit \<sigma>) (inHollowSmallestAreaHit \<sigma>))"
proof -
  have "\<forall>s \<in> set (rev (shapesToCheck H point opts)). passes H opts point s"
    using pass by simp
  from hitLoop_tracks[OF this tracks_initial]
  obtain \<sigma> where "hitLoop H opts point (rev (shapesToCheck H point opts)) initialState = Continue \<sigma>"
    and "tracks H opts point (set (shapesToCheck H point opts)) \<sigma>"
    by auto
  then show ?thesis by (auto simp: getShapeAtPoint_def)
qed

text \<open>
  Claim C3. When no shape to check gives an immediate hit, the result of
  \<open>getShapeAtPoint\<close> is a hollow candidate with the least absolute edge distance among
  those strictly within the margin, if there is one; else a hollow candidate of least
  area; else no hit. In particular, at margin 0, of two hollow shapes of areas 100 and 400
  that both contain the point, the one of area 100 is returned.
\<close>

theorem C3_candidates_after_loop:
  assumes pass: "\<forall>s \<in> set (shapesToCheck H point opts). passes H opts point s"
  shows "\<exists>r. getShapeAtPoint H point opts = Some r \<and>
           (case r of
              None \<Rightarrow> \<forall>c \<in> set (shapesToCheck H point opts). hollowCandidate H opts point c = None
            | Some s \<Rightarrow>
                s \<in> set (shapesToCheck H point opts) \<and>
                (\<exists>d a. hollowCandidate H opts point s = Some (d, a) \<and>
                   (if \<exists>c \<in> set (shapesToCheck H point opts). \<exists>d' a'.
                         hollowCandidate H opts point c = Some (d', a') \<and> d' < margin opts
                    then d < margin opts \<and>
                         (\<forall>c \<in> set (shapesToCheck H point opts). \<forall>d' a'.
                            hollowCandidate H opts point c = Some (d', a') \<longrightarrow>
                            d' < margin opts \<longrightarrow> d \<le> d')
                    else (\<forall>c \<in> set (shapesToCheck H point opts). \<forall>d' a'.
                            hollowCandidate H opts point c = Some (d', a') \<longrightarrow> a \<le> a')))) \<and>
           (margin opts = 0 \<longrightarrow>
            (\<forall>small large ds dl.
               small \<in> set (shapesToCheck H point opts) \<longrightarrow>
               large \<in> set (shapesToCheck H point opts) \<longrightarrow>
               hollowCandidate H opts point small = Some (ds, 100) \<longrightarrow>
               hollowCandidate H opts point large = Some (dl, 400) \<longrightarrow>
               (\<forall>c \<in> set (shapesToCheck H point opts).
                  c \<noteq> small \<longrightarrow> c \<noteq> large \<longrightarrow> hollowCandidate H opts point c = None) \<longrightarrow>
               r = Some small))"
proof -
  let ?S = "set (shapesToCheck H point opts)"
  let ?cand = "hollowCandidate H opts point"
  from getShapeAtPoint_tracks[OF pass] obtain \<sigma> where
    inv: "tracks H opts point ?S \<sigma>" and
    res: "getShapeAtPoint H point opts =
            Some (orElse (inMarginClosestToEdgeHit \<sigma>) (inHollowSmallestAreaHit \<sigma>))"
    by blast
  let ?r = "orElse (inMarginClosestToEdgeHit \<sigma>) (inHollowSmallestAreaHit \<sigma>)"
  have nonneg: "\<And>c d a. ?cand c = Some (d, a) \<Longrightarrow> 0 \<le> d"
    by (auto simp: hollowCandidate_def Let_def split: if_splits option.splits)
  have general: "case ?r of
       None \<Rightarrow> \<forall>c \<in> ?S. ?cand c = None
     | Some s \<Rightarrow>
         s \<in> ?S \<and>
         (\<exists>d a. ?cand s = Some (d, a) \<and>
            (if \<exists>c \<in> ?S. \<exists>d' a'. ?cand c = Some (d', a') \<and> d' < margin opts
             then d < margin opts \<and>
                  (\<forall>c \<in> ?S. \<forall>d' a'. ?cand c = Some (d', a') \<longrightarrow> d' < margin opts \<longrightarrow> d \<le> d')
             else (\<forall>c \<in> ?S. \<forall>d' a'. ?cand c = Some (d', a') \<longrightarrow> a \<le> a')))"
  proof (cases "inMarginClosestToEdgeHit \<sigma>")
    case (Some m)
    with inv obtain d a where
      m: "m \<in> ?S" "?cand m = Some (d, a)" "d < margin opts"
         "\<forall>c \<in> ?S. \<forall>d' a'. ?cand c = Some (d', a') \<longrightarrow> d' < margin opts \<longrightarrow> d \<le> d'"
      by (auto simp: tracks_def)
    have ex: "\<exists>c \<in> ?S. \<exists>d' a'. ?cand c = Some (d', a') \<and> d' < margin opts"
      using m(1,2,3) by blast
    have "?r = Some m" using Some by (simp add: orElse_def)
    then show ?thesis using m by (simp only: option.simps if_P[OF ex]) blast
  next
    case None
    note noMargin = None
    show ?thesis
    proof (cases "inHollowSmallestAreaHit \<sigma>")
      case None
      with inv noMargin show ?thesis by (auto simp: tracks_def orElse_def)
    next
      case (Some h)
      with inv noMargin obtain d a where
        h: "h \<in> ?S" "?cand h = Some (d, a)"
           "\<forall>c \<in> ?S. \<forall>d' a'. ?cand c = Some (d', a') \<longrightarrow> a \<le> a'"
        and nm: "\<forall>c \<in> ?S. \<forall>d' a'. ?cand c = Some (d', a') \<longrightarrow> \<not> d' < margin opts"
        by (auto simp: tracks_def)
      have nex: "\<not> (\<exists>c \<in> ?S. \<exists>d' a'. ?cand c = Some (d', a') \<and> d' < margin opts)"
        using nm by blast
      have "?r = Some h" using noMargin Some by (simp add: orElse_def)
      then show ?thesis using h by (simp only: option.simps if_not_P[OF nex]) blast
    qed
  qed
  have particular: "margin opts = 0 \<longrightarrow>
      (\<forall>small large ds dl. small \<in> ?S \<longrightarrow> large \<in> ?S \<longrightarrow>
         ?cand small = Some (ds, 100) \<longrightarrow> ?cand large = Some (dl, 400) \<longrightarrow>
         (\<forall>c \<in> ?S. c \<noteq> small \<longrightarrow> c \<noteq> large \<longrightarrow> ?cand c = None) \<longrightarrow>
         ?r = Some small)"
  proof (intro impI allI)
    fix small large ds dl
    assume m0: "margin opts = 0" and mem: "small \<in> ?S" "large \<in> ?S"
      and cs: "?cand small = Some (ds, 100)" and cl: "?cand large = Some (dl, 400)"
      and others: "\<forall>c \<in> ?S. c \<noteq> small \<longrightarrow> c \<noteq> large \<longrightarrow> ?cand c = None"
    have noMargin: "\<not> (\<exists>c \<in> ?S. \<exists>d' a'. ?cand c = Some (d', a') \<and> d' < margin opts)"
      using nonneg m0 by fastforce
    show "?r = Some small"
    proof (cases ?r)
      case None
      with general mem(1) cs show ?thesis by auto
    next
      case (Some s)
      with general noMargin obtain d a where
        s: "s \<in> ?S" "?cand s = Some (d, a)"
        and least: "\<forall>c \<in> ?S. \<forall>d' a'. ?cand c = Some (d', a') \<longrightarrow> a \<le> a'"
        by auto
      from least mem(1) cs have "a \<le> 100" by blast
      with s cl others cs have "s = small" by (cases "s = large") auto
      with Some show ?thesis by simp
    qed
  qed
  show ?thesis using res general particular by blast
qed

section \<open>Hit testing: shapes larger than the viewport\<close>

lemma hitStep_skipped:
  assumes closed: "isClosed (getShapeGeometry H (shapeId s))"
    and hollow: "filledForHit (getShapeGeometry H (shapeId s)) = Some False"
    and nonframe: "\<not> isShapeOfType s ''frame''"
    and bounds: "getShapePageBounds H (shapeId s) = Some pb"
    and huge: "Box_contains H pb (getViewportPageBounds H)"
    and nolabel: "checkLabels s (getShapeGeometry H (shapeId s))
                    (getPointInShapeSpace H (shapeId s) point) = Some False"
  shows "hitStep H opts point s \<sigma> = Continue \<sigma>"
  using assms by (simp add: hitStep_def Let_def hollowStep_def split: option.splits)

lemma hitLoop_never_holds:
  assumes inert: "\<And>\<sigma>. hitStep H opts point s \<sigma> = Continue \<sigma>"
  shows "\<not> holds \<sigma> s \<Longrightarrow>
         hitLoop H opts point cs \<sigma> \<noteq> Return (Some s) \<and>
         (\<forall>\<sigma>'. hitLoop H opts point cs \<sigma> = Continue \<sigma>' \<longrightarrow> \<not> holds \<sigma>' s)"
proof (induction cs arbitrary: \<sigma>)
  case Nil
  then show ?case by simp
next
  case (Cons c cs)
  show ?case
  proof (cases "c = s")
    case True
    with Cons show ?thesis by (simp add: inert)
  next
    case False
    show ?thesis
    proof (cases "hitStep H opts point c \<sigma>")
      case (Return r)
      with hitStep_Return[of H opts point c \<sigma> s] False Cons.prems show ?thesis by auto
    next
      case (Continue \<sigma>1)
      with hitStep_Continue[of H opts point c \<sigma> \<sigma>1 s] False Cons.prems
      have "\<not> holds \<sigma>1 s" by auto
      from Cons.IH[OF this] Continue show ?thesis by simp
    next
      case Throw
      then show ?thesis by simp
    qed
  qed
qed

text \<open>
  Claim C10, as amended. A closed shape that is not filled, is no frame, and whose page
  bounds contain the viewport is skipped by \<open>getShapeAtPoint\<close> unless the point hits one of
  its labels: its pass through the loop leaves the candidates as they were, the call never
  returns it, and no pass of the loop records it as a candidate.
\<close>

theorem C10_viewport_sized_hollow_skipped:
  assumes closed: "isClosed (getShapeGeometry H (shapeId s))"
    and hollow: "filledForHit (getShapeGeometry H (shapeId s)) = Some False"
    and nonframe: "\<not> isShapeOfType s ''frame''"
    and bounds: "getShapePageBounds H (shapeId s) = Some pb"
    and huge: "Box_contains H pb (getViewportPageBounds H)"
    and nolabel: "checkLabels s (getShapeGeometry H (shapeId s))
                    (getPointInShapeSpace H (shapeId s) point) = Some False"
  shows "(\<forall>\<sigma>. hitStep H opts point s \<sigma> = Continue \<sigma>) \<and>
         getShapeAtPoint H point opts \<noteq> Some (Some s) \<and>
         (\<forall>cs \<sigma> \<sigma>'. \<not> holds \<sigma> s \<longrightarrow> hitLoop H opts point cs \<sigma> = Continue \<sigma>' \<longrightarrow> \<not> holds \<sigma>' s)"
proof -
  have inert: "\<And>\<sigma>. hitStep H opts point s \<sigma> = Continue \<sigma>"
    by (rule hitStep_skipped[OF assms])
  have init: "\<not> holds initialState s" by (simp add: holds_def initialState_def)
  have "getShapeAtPoint H point opts \<noteq> Some (Some s)"
    using hitLoop_never_holds[OF inert init, of "rev (shapesToCheck H point opts)"]
    by (auto simp: getShapeAtPoint_def orElse_def holds_def split: hit_step.splits option.splits)
  moreover have "\<forall>cs \<sigma> \<sigma>'. \<not> holds \<sigma> s \<longrightarrow> hitLoop H opts point cs \<sigma> = Continue \<sigma>' \<longrightarrow> \<not> holds \<sigma>' s"
    using hitLoop_never_holds[OF inert] by blast
  ultimately show ?thesis using inert by blast
qed

section \<open>Hit testing on the example page\<close>

lemmas ex_defs = exH_def exOpts_def exF_def exM_def exB_def exS_def exU_def exL_def exShape_def
  exGeometry_def exOrigin_def exInPolygon_def exBoxContains_def rectGeometry_def
  groupGeometry_def rectDistance_def

lemmas hit_defs = shapesToCheck_def isShapeOfType_def hitStep_def checkLabels_def
  shapeDistance_def minDistance_def filledForHit_def hollowStep_def frameStep_def
  belowOpenMargin_def getShapeAtPoint_def initialState_def orElse_def trim_def
  isWhiteSpace_def Let_def

lemma ex_stc3: "shapesToCheck exH (10, 10) (exOpts 0 [''B'', ''S'']) = [exB, exS]"
  by (simp add: ex_defs hit_defs)

lemma ex_res3: "getShapeAtPoint exH (10, 10) (exOpts 0 [''B'', ''S'']) = Some (Some exS)"
  by (simp add: getShapeAtPoint_def ex_stc3) (simp add: ex_defs hit_defs)

lemma ex_passes3: "list_all (passes exH (exOpts 0 [''B'', ''S'']) (10, 10)) [exB, exS]"
  by (simp add: passes_def ex_defs hit_defs)

lemma ex_cand_S: "hollowCandidate exH (exOpts 0 [''B'', ''S'']) (10, 10) exS = Some (5, 100)"
  by (simp add: hollowCandidate_def ex_defs hit_defs)

lemma ex_cand_B: "hollowCandidate exH (exOpts 0 [''B'', ''S'']) (10, 10) exB = Some (10, 400)"
  by (simp add: hollowCandidate_def ex_defs hit_defs)

theorem C3_candidates_after_loop_witness:
  "list_all (passes exH (exOpts 0 [''B'', ''S'']) (10, 10))
     (shapesToCheck exH (10, 10) (exOpts 0 [''B'', ''S''])) \<and>
   hollowCandidate exH (exOpts 0 [''B'', ''S'']) (10, 10) exS = Some (5, 100) \<and>
   hollowCandidate exH (exOpts 0 [''B'', ''S'']) (10, 10) exB = Some (10, 400) \<and>
   getShapeAtPoint exH (10, 10) (exOpts 0 [''B'', ''S'']) = Some (Some exS)"
proof -
  let ?o = "exOpts 0 [''B'', ''S'']"
  have pass: "\<forall>s \<in> set (shapesToCheck exH (10, 10) ?o). passes exH ?o (10, 10) s"
    using ex_passes3 by (simp add: ex_stc3)
  have m0: "margin ?o = 0" by (simp add: exOpts_def)
  have ne: "exB \<noteq> exS" by (simp add: ex_defs)
  from C3_candidates_after_loop[OF pass] obtain r where
    r: "getShapeAtPoint exH (10, 10) ?o = Some r" and
    small: "margin ?o = 0 \<longrightarrow>
      (\<forall>small large ds dl.
         small \<in> set (shapesToCheck exH (10, 10) ?o) \<longrightarrow>
         large \<in> set (shapesToCheck exH (10, 10) ?o) \<longrightarrow>
         hollowCandidate exH ?o (10, 10) small = Some (ds, 100) \<longrightarrow>
         hollowCandidate exH ?o (10, 10) large = Some (dl, 400) \<longrightarrow>
         (\<forall>c \<in> set (shapesToCheck exH (10, 10) ?o).
            c \<noteq> small \<longrightarrow> c \<noteq> large \<longrightarrow> hollowCandidate exH ?o (10, 10) c = None) \<longrightarrow>
         r = Some small)"
    by blast
  have "r = Some exS"
    using small m0 ex_cand_S ex_cand_B by (simp add: ex_stc3)
  with r ex_passes3 ex_cand_S ex_cand_B show ?thesis by (simp add: ex_stc3)
qed

lemma ex_stc4: "shapesToCheck exH (10, 10) (exOpts 10 [''F'', ''S'']) = [] @ exF # [exS]"
  by (simp add: ex_defs hit_defs)

lemma ex_reached4:
  "hitLoop exH (exOpts 10 [''F'', ''S'']) (10, 10) (rev [exS]) initialState =
     Continue \<lparr>inHollowSmallestArea = None, inHollowSmallestAreaHit = None,
               inMarginClosestToEdgeDistance = Some 5, inMarginClosestToEdgeHit = Some exS\<rparr>"
  by (simp add: ex_defs hit_defs)

theorem C4_frame_handling_witness:
  "isShapeOfType exF ''frame'' \<and>
   shapesToCheck exH (10, 10) (exOpts 10 [''F'', ''S'']) = [] @ exF # [exS] \<and>
   hitLoop exH (exOpts 10 [''F'', ''S'']) (10, 10) (rev [exS]) initialState =
     Continue \<lparr>inHollowSmallestArea = None, inHollowSmallestAreaHit = None,
               inMarginClosestToEdgeDistance = Some 5, inMarginClosestToEdgeHit = Some exS\<rparr> \<and>
   \<bar>distanceToPoint (getShapeGeometry exH (shapeId exF))
      (getPointInShapeSpace exH (shapeId exF) (10, 10)) (hitInside (exOpts 10 [''F'', ''S'']))\<bar>
     \<le> margin (exOpts 10 [''F'', ''S'']) \<and>
   getShapeAtPoint exH (10, 10) (exOpts 10 [''F'', ''S'']) = Some (Some exS)"
proof -
  have frame: "isShapeOfType exF ''frame''" by (simp add: isShapeOfType_def ex_defs)
  have near: "\<bar>distanceToPoint (getShapeGeometry exH (shapeId exF))
      (getPointInShapeSpace exH (shapeId exF) (10, 10)) (hitInside (exOpts 10 [''F'', ''S'']))\<bar>
     \<le> margin (exOpts 10 [''F'', ''S''])"
    by (simp add: ex_defs)
  from C4_frame_handling[OF frame ex_stc4 ex_reached4] near
  have "getShapeAtPoint exH (10, 10) (exOpts 10 [''F'', ''S'']) = Some (Some exS)"
    by (simp add: Let_def)
  with frame near ex_stc4 ex_reached4 show ?thesis by blast
qed

theorem C5_empty_mask_excluded_witness:
  "getShapeMask exH (shapeId exM) = Some [] \<and>
   \<not> pointInPolygon exH (10, 10) [] \<and>
   hitTestPoint (getShapeGeometry exH (shapeId exM))
     (getPointInShapeSpace exH (shapeId exM) (10, 10)) 0 True \<and>
   getShapeMaskedPageBounds exH (shapeId exM) = Some None \<and>
   getShapeAtPoint exH (10, 10) (exOpts 0 [''M'']) \<noteq> Some (Some exM) \<and>
   \<not> isPointInShape exH (shapeId exM) (10, 10) 0 True"
proof -
  have mask: "getShapeMask exH (shapeId exM) = Some []" by (simp add: ex_defs)
  have empty: "\<not> pointInPolygon exH (10, 10) []" by (simp add: ex_defs)
  have inside: "hitTestPoint (getShapeGeometry exH (shapeId exM))
     (getPointInShapeSpace exH (shapeId exM) (10, 10)) 0 True"
    by (simp add: ex_defs)
  from C5_empty_mask_excluded[OF mask empty, of "exOpts 0 [''M'']" 0 True] mask empty inside
  show ?thesis by blast
qed

text \<open>
  The claim C10 as stated fails for a hollow shape with a label under the point: the shape
  \<open>L\<close> is closed, not filled, no frame, larger than the viewport, and it is returned.
\<close>

theorem C10_label_hit_counterexample:
  "isClosed (getShapeGeometry exH (shapeId exL)) \<and>
   filledForHit (getShapeGeometry exH (shapeId exL)) = Some False \<and>
   \<not> isShapeOfType exL ''frame'' \<and>
   getShapePageBounds exH (shapeId exL) =
     Some \<lparr>boxX = - 100, boxY = - 100, boxW = 1000, boxH = 1000\<rparr> \<and>
   Box_contains exH \<lparr>boxX = - 100, boxY = - 100, boxW = 1000, boxH = 1000\<rparr>
     (getViewportPageBounds exH) \<and>
   getShapeAtPoint exH (10, 10) (exOpts 0 [''L'']) = Some (Some exL)"
  by (simp add: ex_defs hit_defs)

theorem C10_viewport_sized_hollow_skipped_witness:
  "isClosed (getShapeGeometry exH (shapeId exU)) \<and>
   filledForHit (getShapeGeometry exH (shapeId exU)) = Some False \<and>
   \<not> isShapeOfType exU ''frame'' \<and>
   getShapePageBounds exH (shapeId exU) =
     Some \<lparr>boxX = - 100, boxY = - 100, boxW = 1000, boxH = 1000\<rparr> \<and>
   Box_contains exH \<lparr>boxX = - 100, boxY = - 100, boxW = 1000, boxH = 1000\<rparr>
     (getViewportPageBounds exH) \<and>
   checkLabels exU (getShapeGeometry exH (shapeId exU))
     (getPointInShapeSpace exH (shapeId exU) (10, 10)) = Some False \<and>
   shapesToCheck exH (10, 10) (exOpts 0 [''U'']) = [exU] \<and>
   distanceToPoint (rectGeometry 1000 1000 False False)
     (getPointInShapeSpace exH (shapeId exU) (10, 10)) True \<le> 0 \<and>
   hitStep exH (exOpts 0 [''U'']) (10, 10) exU initialState = Continue initialState \<and>
   getShapeAtPoint exH (10, 10) (exOpts 0 [''U'']) \<noteq> Some (Some exU)"
proof -
  have closed: "isClosed (getShapeGeometry exH (shapeId exU))" by (simp add: ex_defs)
  have hollow: "filledForHit (getShapeGeometry exH (shapeId exU)) = Some False"
    by (simp add: ex_defs filledForHit_def)
  have nonframe: "\<not> isShapeOfType exU ''frame''" by (simp add: ex_defs isShapeOfType_def)
  have bounds: "getShapePageBounds exH (shapeId exU) =
     Some \<lparr>boxX = - 100, boxY = - 100, boxW = 1000, boxH = 1000\<rparr>"
    by (simp add: ex_defs)
  have huge: "Box_contains exH \<lparr>boxX = - 100, boxY = - 100, boxW = 1000, boxH = 1000\<rparr>
     (getViewportPageBounds exH)"
    by (simp add: ex_defs)
  have nolabel: "checkLabels exU (getShapeGeometry exH (shapeId exU))
     (getPointInShapeSpace exH (shapeId exU) (10, 10)) = Some False"
    by (simp add: ex_defs checkLabels_def trim_def)
  have stc: "shapesToCheck exH (10, 10) (exOpts 0 [''U'']) = [exU]"
    by (simp add: ex_defs hit_defs)
  have inside: "distanceToPoint (rectGeometry 1000 1000 False False)
     (getPointInShapeSpace exH (shapeId exU) (10, 10)) True \<le> 0"
    by (simp add: ex_defs)
  from C10_viewport_sized_hollow_skipped[OF closed hollow nonframe bounds huge nolabel,
      of "exOpts 0 [''U'']"]
  have "hitStep exH (exOpts 0 [''U'']) (10, 10) exU initialState = Continue initialState"
    and "getShapeAtPoint exH (10, 10) (exOpts 0 [''U'']) \<noteq> Some (Some exU)"
    by blast+
  with closed hollow nonframe bounds huge nolabel stc inside show ?thesis by blast
qed

section \<open>The store after an update\<close>



lemma applyPartialToShape_id [simp]: "shapeId (applyPartialToShape s p) = shapeId s"
  by (simp add: applyPartialToShape_def)









lemma getShapeParent_Some:
  "getShape st i = Some s \<Longrightarrow> shapeId s' = i \<Longrightarrow>
   getShapeParent st (Some s') =
     (case parentId s of PageId _ \<Rightarrow> None | ShapeId pid \<Rightarrow> getShape st pid)"
  by (simp add: getShapeParent_def)

lemma getShapeParent_missing:
  "getShape st (shapeId s') = None \<Longrightarrow> getShapeParent st (Some s') = None"
  by (simp add: getShapeParent_def)

lemma isShapeOrAncestorLocked_total:
  "grounded st i \<Longrightarrow> shapeId s = i \<Longrightarrow> \<exists>b. isShapeOrAncestorLocked st (Some s) = Some b"
proof (induction arbitrary: s rule: grounded.induct)
  case (missing i)
  then show ?case
    by (subst isShapeOrAncestorLocked.simps)
      (auto simp: getShapeParent_missing isShapeOrAncestorLocked.simps[of st None])
next
  case (on_page i r p)
  then show ?case
    by (subst isShapeOrAncestorLocked.simps)
      (auto simp: getShapeParent_Some[of st i r] isShapeOrAncestorLocked.simps[of st None])
next
  case (in_shape i r q)
  show ?case
  proof (cases "getShape st q")
    case None
    with in_shape show ?thesis
      by (subst isShapeOrAncestorLocked.simps)
        (auto simp: getShapeParent_Some[of st i r] isShapeOrAncestorLocked.simps[of st None])
  next
    case (Some parent)
    from in_shape.IH[OF getShape_id[OF Some]] obtain b where
      "isShapeOrAncestorLocked st (Some parent) = Some b" by blast
    with in_shape.hyps in_shape.prems Some show ?thesis
      by (subst isShapeOrAncestorLocked.simps) (auto simp: getShapeParent_Some[of st i r])
  qed
qed

lemma compactedPartials_total:
  assumes wf: "\<forall>i. grounded st i"
  shows "\<exists>cps. compactedPartials st ps = Some cps"
proof (induction ps)
  case Nil
  then show ?case by simp
next
  case (Cons p ps)
  then obtain cps where rest: "compactedPartials st ps = Some cps" by blast
  show ?case
  proof (cases "getShape st (partialId p)")
    case None
    with rest show ?thesis by simp
  next
    case (Some shape)
    from isShapeOrAncestorLocked_total[OF wf[rule_format] refl, of shape]
    obtain b where "isShapeOrAncestorLocked st (Some shape) = Some b" by blast
    with Some rest show ?thesis by simp
  qed
qed


lemma those_map_total:
  "(\<forall>v \<in> set xs. f v \<noteq> None) \<Longrightarrow> \<exists>ys. those (map f xs) = Some ys"
  by (induction xs) (auto split: option.splits)

lemma compact_set: "set (compact vs) = {v. Some v \<in> set vs}"
  by (induction vs) (auto simp: compact_def map_filter_simps split: option.splits)








section \<open>What the handlers of a put leave unchanged\<close>

lemma forEach_invariant:
  assumes ret: "forEach body s xs = Some s'" and init: "P s"
    and step: "\<And>c x c'. x \<in> set xs \<Longrightarrow> P c \<Longrightarrow> body c x = Some c' \<Longrightarrow> P c'"
  shows "P s'"
proof -
  have "forEach body c ys = Some s' \<Longrightarrow> P c \<Longrightarrow> set ys \<subseteq> set xs \<Longrightarrow> P s'" for c ys
  proof (induction ys arbitrary: c)
    case Nil
    then show ?case by simp
  next
    case (Cons y ys)
    from Cons.prems(1) obtain c1 where c1: "body c y = Some c1" "forEach body c1 ys = Some s'"
      by (auto simp: bind_eq_Some_conv)
    have "y \<in> set xs" using Cons.prems(3) by simp
    from step[OF this Cons.prems(2) c1(1)] have "P c1" .
    from Cons.IH[OF c1(2) this] Cons.prems(3) show ?case by simp
  qed
  from this[OF ret init] show ?thesis by simp
qed



lemma frameConds_refl: "frameConds E Rel \<Longrightarrow> Rel st st"
  by (simp add: frameConds_def)

lemma frameConds_trans:
  assumes "frameConds E Rel" and "Rel a b" and "Rel b c"
  shows "Rel a c"
proof -
  from assms(1) have "\<forall>a b c. Rel a b \<longrightarrow> Rel b c \<longrightarrow> Rel a c" by (simp add: frameConds_def)
  with assms(2,3) show ?thesis by blast
qed

lemma frameConds_unbind:
  assumes "frameConds E Rel" and "getShape W (shapeId arrow) = Some arrow" and "Rel W cur"
    and "boundAt arrow h \<or> withPointTerminal arrow h pt = arrow"
  shows "Rel W (replaceRecords cur [withPointTerminal arrow h pt])"
proof -
  from assms(1) have "keptByUnbind Rel" by (simp add: frameConds_def)
  with assms(2-4) show ?thesis unfolding keptByUnbind_def by blast
qed



lemma framesD: "frames Rel sput \<Longrightarrow> sput s rs = Some s' \<Longrightarrow> Rel (replaceRecords (fst s) rs) (fst s')"
  unfolding frames_def by blast

lemma replaceRecords_Nil [simp]: "replaceRecords st [] = st"
  by (simp add: replaceRecords_def)

lemma updatesFor_Nil [simp]: "updatesFor E st [] = []"
  by (simp add: updatesFor_def map_filter_simps)





lemma withPointTerminal_same:
  "terminalAt arrow h = Some (PointTerminal px py) \<Longrightarrow>
   withPointTerminal arrow h (px, py) = arrow"
  by (cases arrow; cases h)
    (auto simp: terminalAt_def withPointTerminal_def split: shape_props.splits)

lemma getArrowTerminalsInArrowSpace_Some:
  assumes "getArrowTerminalsInArrowSpace E st arrow = Some terminals"
  obtains T start finish label where
    "getShapePageTransform E st (shapeId arrow) = Some T"
    "props arrow = ArrowProps start finish label"
    "terminals HandleStart = getArrowTerminalInArrowSpace E st T arrow start"
    "terminals HandleEnd = getArrowTerminalInArrowSpace E st T arrow finish"
proof -
  from assms obtain T where T: "getShapePageTransform E st (shapeId arrow) = Some T"
    and r: "(case props arrow of
         ArrowProps start end _ \<Rightarrow>
           Some (\<lambda>handleId.
                   case handleId of
                     HandleStart \<Rightarrow> getArrowTerminalInArrowSpace E st T arrow start
                   | HandleEnd \<Rightarrow> getArrowTerminalInArrowSpace E st T arrow end)
       | _ \<Rightarrow> None) = Some terminals"
    unfolding getArrowTerminalsInArrowSpace_def by (simp only: bind_eq_Some_conv) blast
  from r obtain start finish label where ap: "props arrow = ArrowProps start finish label"
    by (cases "props arrow") simp_all
  from r ap have "terminals = (\<lambda>handleId.
                   case handleId of
                     HandleStart \<Rightarrow> getArrowTerminalInArrowSpace E st T arrow start
                   | HandleEnd \<Rightarrow> getArrowTerminalInArrowSpace E st T arrow finish)"
    by simp
  then have "terminals HandleStart = getArrowTerminalInArrowSpace E st T arrow start"
    "terminals HandleEnd = getArrowTerminalInArrowSpace E st T arrow finish"
    by simp_all
  with T ap show ?thesis using that by blast
qed

lemma unbindArrowTerminal_put:
  assumes ret: "unbindArrowTerminal sput E cur arrow h = Some s'"
  obtains pt where "sput cur [withPointTerminal arrow h pt] = Some s'"
    "boundAt arrow h \<or> withPointTerminal arrow h pt = arrow"
proof -
  from ret obtain terminals where
    t: "getArrowTerminalsInArrowSpace E (fst cur) arrow = Some terminals"
    and put: "sput cur [withPointTerminal arrow h (terminals h)] = Some s'"
    unfolding unbindArrowTerminal_def by (simp only: bind_eq_Some_conv) blast
  have "boundAt arrow h \<or> withPointTerminal arrow h (terminals h) = arrow"
  proof (rule getArrowTerminalsInArrowSpace_Some[OF t])
    fix T start finish label
    assume ap: "props arrow = ArrowProps start finish label"
      and ts: "terminals HandleStart = getArrowTerminalInArrowSpace E (fst cur) T arrow start"
      and te: "terminals HandleEnd = getArrowTerminalInArrowSpace E (fst cur) T arrow finish"
    show ?thesis
    proof (cases "terminalAt arrow h")
      case None
      then show ?thesis by (simp add: terminalAt_def ap)
    next
      case (Some t)
      show ?thesis
      proof (cases t)
        case (BindingTerminal b an ex pr)
        with Some show ?thesis by (simp add: boundAt_def)
      next
        case (PointTerminal px py)
        have "terminals h = (px, py)"
          using Some PointTerminal ts te
          by (cases h) (simp_all add: terminalAt_def ap getArrowTerminalInArrowSpace_def)
        with withPointTerminal_same[of arrow h px py] Some PointTerminal show ?thesis by simp
      qed
    qed
  qed
  with put show ?thesis using that by blast
qed

lemma unbindArrowTerminal_frame:
  assumes conds: "frameConds E Rel" and fr: "frames Rel sput"
    and rec: "getShape W (shapeId arrow) = Some arrow" and rel: "Rel W (fst cur)"
    and ret: "unbindArrowTerminal sput E cur arrow h = Some s'"
  shows "Rel W (fst s')"
proof (rule unbindArrowTerminal_put[OF ret])
  fix pt
  assume put: "sput cur [withPointTerminal arrow h pt] = Some s'"
    and b: "boundAt arrow h \<or> withPointTerminal arrow h pt = arrow"
  from frameConds_trans[OF conds frameConds_unbind[OF conds rec rel b] framesD[OF fr put]]
  show ?thesis .
qed










lemma beforeDelete_frame:
  assumes conds: "frameConds E Rel" and fr: "frames Rel sput"
    and ret: "beforeDelete sput E s record = Some s'"
  shows "Rel (fst s) (fst s')"
proof (rule forEach_invariant[OF ret[unfolded beforeDelete_def],
      where P = "\<lambda>c. Rel (fst s) (fst c)"])
  show "Rel (fst s) (fst (fst s, invalidate (parentId record) (snd s)))"
    by (simp add: frameConds_refl[OF conds])
next
  fix c binding c'
  assume mem: "binding \<in> set (getArrowsBoundTo (fst s) (shapeId record))"
    and rel: "Rel (fst s) (fst c)"
    and step: "(case getShape (fst c) (fst binding) of
            None \<Rightarrow> Some c
          | Some arrow \<Rightarrow> unbindArrowTerminal sput E c arrow (snd binding)) = Some c'"
  show "Rel (fst s) (fst c')"
  proof (cases "getShape (fst c) (fst binding)")
    case None
    with step rel show ?thesis by simp
  next
    case (Some arrow)
    with step have u: "unbindArrowTerminal sput E c arrow (snd binding) = Some c'" by simp
    have fresh: "getShape (fst c) (shapeId arrow) = Some arrow"
      using Some getShape_id[OF Some] by simp
    have "Rel (fst c) (fst c')"
      by (rule unbindArrowTerminal_frame[OF conds fr fresh frameConds_refl[OF conds] u])
    from frameConds_trans[OF conds rel this] show ?thesis .
  qed
qed
section \<open>The lock flags through the handlers\<close>

lemma withPointTerminal_fields [simp]:
  "shapeId (withPointTerminal arrow h pt) = shapeId arrow"
  "parentId (withPointTerminal arrow h pt) = parentId arrow"
  "isLocked (withPointTerminal arrow h pt) = isLocked arrow"
  "shapeIndex (withPointTerminal arrow h pt) = shapeIndex arrow"
  by (simp_all add: withPointTerminal_def)






section \<open>A store without bound arrows: the handlers change nothing\<close>












lemma getAncestorPageId_record:
  assumes "getShape st (shapeId arrow) = Some arrow"
  shows "getAncestorPageId st (Some arrow) = getAncestorPageId st (getShape st (shapeId arrow))"
  using assms by simp








section \<open>The depth of a store, and reparenting without bound arrows\<close>












lemma reparentShapes_readonly:
  assumes ro: "isReadonly E" and wf: "\<forall>i. grounded (fst s) i"
  shows "reparentShapes sput E s ids np ins = Some s"
proof (cases "ids = []")
  case True
  then show ?thesis by (simp add: reparentShapes_def)
next
  case False
  let ?S = "compact (map (getShape (fst s)) ids)"
  let ?L = "filter isLocked ?S"
  let ?ind = "reparentIndices E
                (compact (map (getShape (fst s)) (getSortedChildIdsForParent (fst s) np)))
                ins (length ids)"
  obtain pT where pT: "(case np of PageId _ \<Rightarrow> Some (Mat_Identity E)
      | ShapeId pid \<Rightarrow> getShapePageTransform E (fst s) pid) = Some pT"
    using getShapePageTransform_total[OF wf[rule_format], where E = E]
    by (cases np) auto
  have upd: "updateShapes sput E s ps = Some s" for ps
    using compactedPartials_total[OF wf, of ps] ro
    by (auto simp: updateShapes_def updateShapesInternal_def)
  have "\<forall>v \<in> set (enumerate 0 ?S). reparentChange E (fst s) np pT ?ind v \<noteq> None"
    using getShapePageTransform_total[OF wf[rule_format], where E = E]
    by (fastforce simp: reparentChange_def)
  from those_map_total[OF this] obtain changes where
    chg: "those (map (reparentChange E (fst s) np pT ?ind) (enumerate 0 ?S)) = Some changes"
    by blast
  show ?thesis
    unfolding reparentShapes_def Let_def using False
    by (simp only: if_False pT if_cancel chg upd Option.bind.simps)
qed

section \<open>The example stores\<close>









section \<open>Lock flags across a reparent\<close>


section \<open>A cycle of parents: the visit of the descendants never ends\<close>



lemma hasAncestor_by_id:
  "hasAncestor st (Some s) c = hasAncestor st (getShape st (shapeId s)) c"
proof (cases "getShape st (shapeId s)")
  case None
  then show ?thesis by (simp add: hasAncestor.simps)
next
  case (Some f)
  have "getShape st (shapeId f) = Some f" using Some getShape_id[OF Some] by simp
  with Some show ?thesis
    by (subst hasAncestor.simps, subst (2) hasAncestor.simps) simp
qed














section \<open>A reparent into a descendant\<close>














end
